theory Spec2Isabelle
  imports Complex_Main "HOL-Library.AList"
begin

section \<open>Python values and strings\<close>

text \<open>
  The notebook passes loosely typed scalars around: a cell of a DataFrame, a timestamp
  read from the portal, a value handed to \<^verbatim>\<open>truncate_string\<close>. The scalars that
  occur are \<^verbatim>\<open>None\<close>, strings, integers, booleans and floats. A \<open>string\<close> is a
  list of characters, one per Python code point, so \<open>length\<close> is Python's
  \<^verbatim>\<open>len\<close>; the code points are those below 256. A float is finite and is given by
  its value and by the text that \<^verbatim>\<open>str\<close> renders for it (Python's float formatting
  is not part of the notebook); NaN is a missing value and reads as \<^verbatim>\<open>None\<close>.
\<close>

datatype pyval = PNone | PStr string | PInt int | PBool bool | PFloat rat string

datatype py_exn = ValueError | OSError | TypeError | OverflowError | IndexError

fun str_nat :: "nat \<Rightarrow> string" where
  "str_nat n =
     (if n < 10 then [char_of (48 + n)]
      else str_nat (n div 10) @ [char_of (48 + n mod 10)])"

declare str_nat.simps [simp del]

definition str_int :: "int \<Rightarrow> string" where
  "str_int i = (if i < 0 then CHR ''-'' # str_nat (nat (- i)) else str_nat (nat i))"

text \<open>Python's \<^verbatim>\<open>str(value)\<close>.\<close>

fun py_str :: "pyval \<Rightarrow> string" where
  "py_str PNone = ''None''"
| "py_str (PStr s) = s"
| "py_str (PInt i) = str_int i"
| "py_str (PBool b) = (if b then ''True'' else ''False'')"
| "py_str (PFloat x s) = s"

text \<open>
  Python's slice \<^verbatim>\<open>s[:n]\<close>: a negative \<open>n\<close> counts from the end of the string.
\<close>

definition py_slice_to :: "'a list \<Rightarrow> int \<Rightarrow> 'a list" where
  "py_slice_to s n =
     (if 0 \<le> n then take (nat n) s else take (nat (int (length s) + n)) s)"

text \<open>Python's \<^verbatim>\<open>s.endswith(suf)\<close>.\<close>

definition endswith :: "string \<Rightarrow> string \<Rightarrow> bool" where
  "endswith s suf =
     (length suf \<le> length s \<and> drop (length s - length suf) s = suf)"

text \<open>
  Python's \<^verbatim>\<open>s.lower()\<close> and \<^verbatim>\<open>s.strip()\<close> on the code points below 256. The
  upper-case letters are \<open>A\<close> to \<open>Z\<close> and the Latin-1 letters \<open>0xC0\<close> to \<open>0xDE\<close>
  (without the multiplication sign \<open>0xD7\<close>); each has its lower-case letter 32 places
  further. The whitespace that \<^verbatim>\<open>strip\<close> removes is what \<^verbatim>\<open>str.isspace\<close> accepts:
  \<open>0x09\<close> to \<open>0x0D\<close>, \<open>0x1C\<close> to \<open>0x1F\<close>, the space, \<open>0x85\<close> and \<open>0xA0\<close>.
\<close>

definition upper_letters :: string where
  "upper_letters =
     ''ABCDEFGHIJKLMNOPQRSTUVWXYZ'' @
     [CHR 0xC0, CHR 0xC1, CHR 0xC2, CHR 0xC3, CHR 0xC4, CHR 0xC5, CHR 0xC6, CHR 0xC7,
      CHR 0xC8, CHR 0xC9, CHR 0xCA, CHR 0xCB, CHR 0xCC, CHR 0xCD, CHR 0xCE, CHR 0xCF,
      CHR 0xD0, CHR 0xD1, CHR 0xD2, CHR 0xD3, CHR 0xD4, CHR 0xD5, CHR 0xD6,
      CHR 0xD8, CHR 0xD9, CHR 0xDA, CHR 0xDB, CHR 0xDC, CHR 0xDD, CHR 0xDE]"

definition lower_letters :: string where
  "lower_letters =
     ''abcdefghijklmnopqrstuvwxyz'' @
     [CHR 0xE0, CHR 0xE1, CHR 0xE2, CHR 0xE3, CHR 0xE4, CHR 0xE5, CHR 0xE6, CHR 0xE7,
      CHR 0xE8, CHR 0xE9, CHR 0xEA, CHR 0xEB, CHR 0xEC, CHR 0xED, CHR 0xEE, CHR 0xEF,
      CHR 0xF0, CHR 0xF1, CHR 0xF2, CHR 0xF3, CHR 0xF4, CHR 0xF5, CHR 0xF6,
      CHR 0xF8, CHR 0xF9, CHR 0xFA, CHR 0xFB, CHR 0xFC, CHR 0xFD, CHR 0xFE]"

definition lower_char :: "char \<Rightarrow> char" where
  "lower_char c =
     (case map_of (zip upper_letters lower_letters) c of
        Some d \<Rightarrow> d
      | None \<Rightarrow> c)"

definition lower :: "string \<Rightarrow> string" where
  "lower s = map lower_char s"

definition is_space :: "char \<Rightarrow> bool" where
  "is_space c =
     (c \<in> set [CHR 0x09, CHR 0x0A, CHR 0x0B, CHR 0x0C, CHR 0x0D,
                CHR 0x1C, CHR 0x1D, CHR 0x1E, CHR 0x1F, CHR '' '', CHR 0x85, CHR 0xA0])"

definition strip :: "string \<Rightarrow> string" where
  "strip s = rev (dropWhile is_space (rev (dropWhile is_space s)))"


section \<open>Field sanitizer\<close>

text \<open>
  \<^verbatim>\<open>truncate_string(value, max_length, add_ellipsis=True)\<close>, the same in both notebooks:
  \<^verbatim>\<open>
    if value is None: return ""
    str_value = str(value)
    if len(str_value) <= max_length: return str_value
    if add_ellipsis and max_length > 3: return str_value[:max_length - 3] + "..."
    else: return str_value[:max_length]
  \<close>
\<close>

definition truncate_string :: "pyval \<Rightarrow> int \<Rightarrow> bool \<Rightarrow> string" where
  "truncate_string v max_length add_ellipsis =
     (if v = PNone then ''''
      else let str_value = py_str v in
        if int (length str_value) \<le> max_length then str_value
        else if add_ellipsis \<and> max_length > 3
          then py_slice_to str_value (max_length - 3) @ ''...''
          else py_slice_to str_value max_length)"


section \<open>Timestamps\<close>

text \<open>
  \<^verbatim>\<open>convert_timestamp_to_date\<close> and \<^verbatim>\<open>days_since\<close> divide the millisecond
  timestamp by 1000 and hand the quotient to \<^verbatim>\<open>datetime.datetime.fromtimestamp\<close>.
  The standard library is not part of the notebook, so it is a parameter of the model:
  \<open>fromtimestamp\<close> may return a datetime or raise, \<open>date_of\<close> is \<^verbatim>\<open>dt.date()\<close>,
  \<open>now\<close> is \<^verbatim>\<open>datetime.datetime.now()\<close> and \<open>delta_days a b\<close> is
  \<^verbatim>\<open>(a - b).days\<close>.
\<close>

record ('dt, 'd) datetime_lib =
  fromtimestamp :: "rat \<Rightarrow> py_exn + 'dt"
  date_of :: "'dt \<Rightarrow> 'd"
  now :: "'dt"
  delta_days :: "'dt \<Rightarrow> 'dt \<Rightarrow> int"

text \<open>
  Python's true division \<^verbatim>\<open>timestamp_ms / 1000\<close>. On an \<^verbatim>\<open>int\<close> the quotient is
  rounded to a double, and CPython raises \<^verbatim>\<open>OverflowError\<close> ("integer division result
  too large for a float") when the rounded quotient is beyond the largest finite double,
  that is from \<open>2^1024 - 2^970\<close> on. The quotient is kept as the exact rational that the
  double approximates. A string cannot be divided (\<^verbatim>\<open>TypeError\<close>); \<^verbatim>\<open>True\<close> and
  \<^verbatim>\<open>False\<close> count as 1 and 0; a finite float divides without an exception.
  \<open>is_minus_one\<close> is the test \<^verbatim>\<open>timestamp_ms == -1\<close>, which the integer and the
  float \<open>-1\<close> pass.
\<close>

definition dbl_overflow :: rat where
  "dbl_overflow = 2 ^ 1024 - 2 ^ 970"

fun py_truediv_1000 :: "pyval \<Rightarrow> py_exn + rat" where
  "py_truediv_1000 PNone = Inl TypeError"
| "py_truediv_1000 (PStr s) = Inl TypeError"
| "py_truediv_1000 (PBool b) = Inr ((if b then 1 else 0) / 1000)"
| "py_truediv_1000 (PInt i) =
     (if dbl_overflow \<le> \<bar>of_int i / 1000\<bar> then Inl OverflowError
      else Inr (of_int i / 1000))"
| "py_truediv_1000 (PFloat x s) = Inr (x / 1000)"

fun is_minus_one :: "pyval \<Rightarrow> bool" where
  "is_minus_one (PInt i) = (i = - 1)"
| "is_minus_one (PFloat x s) = (x = - 1)"
| "is_minus_one _ = False"

text \<open>
  \<^verbatim>\<open>except (ValueError, OSError, TypeError): return None\<close>: the three listed
  exceptions become the result \<^verbatim>\<open>None\<close>, any other exception leaves the function.
\<close>

definition except_conversion :: "py_exn \<Rightarrow> py_exn + 'a option" where
  "except_conversion e =
     (if e = ValueError \<or> e = OSError \<or> e = TypeError then Inr None else Inl e)"

definition convert_timestamp_to_date ::
  "('dt, 'd) datetime_lib \<Rightarrow> pyval \<Rightarrow> py_exn + 'd option" where
  "convert_timestamp_to_date lib timestamp_ms =
     (if timestamp_ms = PNone \<or> is_minus_one timestamp_ms then Inr None
      else case py_truediv_1000 timestamp_ms of
        Inl e \<Rightarrow> except_conversion e
      | Inr q \<Rightarrow>
          (case fromtimestamp lib q of
             Inl e \<Rightarrow> except_conversion e
           | Inr dt \<Rightarrow> Inr (Some (date_of lib dt))))"

definition days_since ::
  "('dt, 'd) datetime_lib \<Rightarrow> pyval \<Rightarrow> py_exn + int option" where
  "days_since lib timestamp_ms =
     (if timestamp_ms = PNone \<or> is_minus_one timestamp_ms then Inr None
      else case py_truediv_1000 timestamp_ms of
        Inl e \<Rightarrow> except_conversion e
      | Inr q \<Rightarrow>
          (case fromtimestamp lib q of
             Inl e \<Rightarrow> except_conversion e
           | Inr dt \<Rightarrow> Inr (Some (delta_days lib (now lib) dt))))"


section \<open>The sink and the local environment\<close>

text \<open>
  The hosted-table service (the sink), the operator's console and the local disk are
  outside the notebook. They are modelled as one explicit state, the \<open>world\<close>, that
  every function takes and returns.

  \<^item> \<open>items\<close> is the content of the sink, in a fixed order. An item has an identity
    (\<open>i_id\<close>), a title, an owner and a type; a feature service carries its tables and
    layers, a CSV item its staged rows.
  \<^item> Every call to the sink is fallible. The \<open>script\<close> says how the call number
    \<open>clock\<close> ends: \<open>Ok\<close> (it does what it is asked), \<open>Raise\<close> (it throws an
    exception and changes nothing), \<open>RetNone\<close> (it returns \<^verbatim>\<open>None\<close> and changes
    nothing), \<open>RetFalse\<close> (it returns \<^verbatim>\<open>False\<close> and changes nothing), or
    \<open>Flags bs\<close> (for a row insert: the per-row success flags; like \<open>Ok\<close> for any
    other call). Where the notebook uses the answer as an object (reads an attribute of
    it, iterates over it), \<^verbatim>\<open>None\<close> and \<^verbatim>\<open>False\<close> make that use raise.
  \<^item> \<open>trace\<close> records the calls made to the sink, the \<^verbatim>\<open>time.sleep\<close> pauses (in
    milliseconds) and the prompts, in order.
  \<^item> \<open>stdin\<close> holds the answers the operator will type; \<open>files\<close> the local temporary
    files that exist. Writing and removing a local file always succeeds.
\<close>

type_synonym feature = "(string \<times> pyval) list"

record field =
  f_name :: string
  f_type :: "string option"
  f_length :: "int option"

record layer =
  l_fields :: "field list"
  l_rows :: "feature list"

text \<open>
  A DataFrame built from a list of dicts: the column names and one dict per row. A key a
  row lacks reads as a missing value, and a missing value (NaN) is \<^verbatim>\<open>None\<close>. The
  model takes the frame with its dates already rendered as \<^verbatim>\<open>YYYY/MM/DD\<close> strings,
  which is the first thing each function does with its copy of the frame.
\<close>

record dataframe =
  df_columns :: "string list"
  df_rows :: "feature list"

record item =
  i_id :: nat
  i_title :: string
  i_owner :: string
  i_type :: string
  i_tables :: "layer list"
  i_layers :: "layer list"
  i_data :: "feature list"

datatype outcome = Ok | Raise | RetNone | RetFalse | Flags "bool list"

datatype event =
    Search bool string string string nat
  | ListMyItems nat
  | FromItem nat
  | DeleteFeatures nat
  | Sleep nat
  | UpdateData nat
  | FolderGet string
  | FolderAdd string string
  | ContentAdd string
  | Append nat nat
  | EditFeatures nat "feature list"
  | Analyze "nat option"
  | Publish nat
  | UpdateProps nat
  | Move nat string
  | DeleteItem nat
  | Share nat
  | ShareLegacy nat
  | Input

record world =
  items :: "item list"
  script :: "nat \<Rightarrow> outcome"
  clock :: nat
  trace :: "event list"
  stdin :: "string list"
  files :: "string list"
  current_user :: string
  next_id :: nat

datatype 'a attempt = Raised | Got 'a

definition call :: "event \<Rightarrow> world \<Rightarrow> outcome \<times> world" where
  "call e w = (script w (clock w), w\<lparr>clock := clock w + 1, trace := trace w @ [e]\<rparr>)"

definition sleep :: "nat \<Rightarrow> world \<Rightarrow> world" where
  "sleep ms w = w\<lparr>trace := trace w @ [Sleep ms]\<rparr>"

definition write_file :: "string \<Rightarrow> world \<Rightarrow> world" where
  "write_file path w = w\<lparr>files := List.insert path (files w)\<rparr>"

text \<open>\<^verbatim>\<open>if os.path.exists(p): os.remove(p)\<close>\<close>

definition remove_file :: "string \<Rightarrow> world \<Rightarrow> world" where
  "remove_file path w = w\<lparr>files := removeAll path (files w)\<rparr>"

text \<open>The answer is \<^verbatim>\<open>None\<close> or \<^verbatim>\<open>False\<close>: Python's \<^verbatim>\<open>not result\<close>.\<close>

definition falsy :: "outcome \<Rightarrow> bool" where
  "falsy out = (out = RetNone \<or> out = RetFalse)"

definition succeeded :: "outcome \<Rightarrow> bool" where
  "succeeded out = (out \<noteq> Raise \<and> \<not> falsy out)"

text \<open>
  A Python variable that holds an object, \<^verbatim>\<open>None\<close> or \<^verbatim>\<open>False\<close>: the test
  \<^verbatim>\<open>x is None\<close> tells the last two apart, the test \<^verbatim>\<open>not x\<close> does not.
\<close>

datatype 'a pyobj = Obj 'a | PyNone | PyFalse

subsection \<open>Items, layers and their rows\<close>

fun upd_first :: "('a \<Rightarrow> bool) \<Rightarrow> ('a \<Rightarrow> 'a) \<Rightarrow> 'a list \<Rightarrow> 'a list" where
  "upd_first P f [] = []"
| "upd_first P f (x # xs) = (if P x then f x # xs else x # upd_first P f xs)"

definition lookup_item :: "nat \<Rightarrow> world \<Rightarrow> item option" where
  "lookup_item n w = find (\<lambda>i. i_id i = n) (items w)"

datatype layer_kind = InTables | InLayers

type_synonym layer_ref = "nat \<times> layer_kind"

definition item_layers :: "layer_kind \<Rightarrow> item \<Rightarrow> layer list" where
  "item_layers k it = (case k of InTables \<Rightarrow> i_tables it | InLayers \<Rightarrow> i_layers it)"

text \<open>The layer a reference stands for: \<^verbatim>\<open>flc.tables[0]\<close> or \<^verbatim>\<open>flc.layers[0]\<close>.\<close>

definition get_layer :: "layer_ref \<Rightarrow> world \<Rightarrow> layer option" where
  "get_layer ref w =
     (case lookup_item (fst ref) w of
        None \<Rightarrow> None
      | Some it \<Rightarrow> (case item_layers (snd ref) it of [] \<Rightarrow> None | l # _ \<Rightarrow> Some l))"

definition map_head :: "('a \<Rightarrow> 'a) \<Rightarrow> 'a list \<Rightarrow> 'a list" where
  "map_head f xs = (case xs of [] \<Rightarrow> [] | x # r \<Rightarrow> f x # r)"

definition item_upd_rows ::
  "layer_kind \<Rightarrow> (feature list \<Rightarrow> feature list) \<Rightarrow> item \<Rightarrow> item" where
  "item_upd_rows k g it =
     (case k of
        InTables \<Rightarrow> it\<lparr>i_tables := map_head (\<lambda>l. l\<lparr>l_rows := g (l_rows l)\<rparr>) (i_tables it)\<rparr>
      | InLayers \<Rightarrow> it\<lparr>i_layers := map_head (\<lambda>l. l\<lparr>l_rows := g (l_rows l)\<rparr>) (i_layers it)\<rparr>)"

definition upd_layer_rows ::
  "layer_ref \<Rightarrow> (feature list \<Rightarrow> feature list) \<Rightarrow> world \<Rightarrow> world" where
  "upd_layer_rows ref g w =
     w\<lparr>items := upd_first (\<lambda>i. i_id i = fst ref) (item_upd_rows (snd ref) g) (items w)\<rparr>"

definition layer_rows :: "layer_ref \<Rightarrow> world \<Rightarrow> feature list" where
  "layer_rows ref w = (case get_layer ref w of None \<Rightarrow> [] | Some l \<Rightarrow> l_rows l)"

text \<open>The sink mints the identity of every item it creates.\<close>

definition add_item ::
  "string \<Rightarrow> string \<Rightarrow> layer list \<Rightarrow> feature list \<Rightarrow> world \<Rightarrow> item \<times> world" where
  "add_item ttl typ tabs dat w =
     (let it = \<lparr>i_id = next_id w, i_title = ttl, i_owner = current_user w, i_type = typ,
                i_tables = tabs, i_layers = [], i_data = dat\<rparr>
      in (it, w\<lparr>items := items w @ [it], next_id := next_id w + 1\<rparr>))"

text \<open>
  A call on a layer. Whatever the script says, the call raises when the layer is no
  longer in the sink.
\<close>

definition layer_call :: "event \<Rightarrow> layer_ref \<Rightarrow> world \<Rightarrow> outcome \<times> world" where
  "layer_call e ref w =
     (let (out, w1) = call e w in (if get_layer ref w1 = None then Raise else out, w1))"

text \<open>\<^verbatim>\<open>target_layer.delete_features(where="1=1")\<close>\<close>

definition delete_features :: "layer_ref \<Rightarrow> world \<Rightarrow> bool attempt \<times> world" where
  "delete_features ref w =
     (let (out, w1) = layer_call (DeleteFeatures (fst ref)) ref w in
      if out = Raise then (Raised, w1)
      else if falsy out then (Got False, w1)
      else (Got True, upd_layer_rows ref (\<lambda>_. []) w1))"

text \<open>
  \<^verbatim>\<open>layer.edit_features(adds=batch)\<close>. The answer is an exception, no usable result, or
  one success flag per submitted feature; the features flagged as successful are now rows
  of the layer.
\<close>

definition add_results :: "outcome \<Rightarrow> nat \<Rightarrow> bool list" where
  "add_results out n =
     (case out of Flags fl \<Rightarrow> take n (fl @ replicate n False) | _ \<Rightarrow> replicate n True)"

definition edit_features ::
  "layer_ref \<Rightarrow> feature list \<Rightarrow> world \<Rightarrow> bool list option attempt \<times> world" where
  "edit_features ref adds w =
     (let (out, w1) = layer_call (EditFeatures (fst ref) adds) ref w in
      if out = Raise then (Raised, w1)
      else if falsy out then (Got None, w1)
      else let flags = add_results out (length adds) in
        (Got (Some flags),
         upd_layer_rows ref (\<lambda>rows. rows @ map fst (filter snd (zip adds flags))) w1))"

subsection \<open>Searching the sink\<close>

text \<open>
  \<^verbatim>\<open>gis.content.search(query, max_items)\<close> for a title, an owner and a type, quoted or
  not. The index answers the query exactly and in the order of the content, unless the
  script makes the call raise. \<^verbatim>\<open>gis.users.me.items(max_items)\<close> lists the items of
  the current user. The notebook iterates over the answer inside the handler that also
  guards the call, so an answer \<^verbatim>\<open>None\<close> or \<^verbatim>\<open>False\<close> ends like an exception of the
  call.
\<close>

definition content_search ::
  "bool \<Rightarrow> string \<Rightarrow> string \<Rightarrow> string \<Rightarrow> nat \<Rightarrow> world \<Rightarrow> item list attempt \<times> world" where
  "content_search quoted ttl own typ max_items w =
     (let (out, w1) = call (Search quoted ttl own typ max_items) w in
      if out = Raise \<or> falsy out then (Raised, w1)
      else (Got (take max_items
              (filter (\<lambda>i. i_title i = ttl \<and> i_owner i = own \<and> i_type i = typ) (items w1))), w1))"

definition my_items :: "nat \<Rightarrow> world \<Rightarrow> item list attempt \<times> world" where
  "my_items max_items w =
     (let (out, w1) = call (ListMyItems max_items) w in
      if out = Raise \<or> falsy out then (Raised, w1)
      else (Got (take max_items (filter (\<lambda>i. i_owner i = current_user w1) (items w1))), w1))"


section \<open>Sink table locator\<close>

text \<open>
  \<^verbatim>\<open>find_existing_table(gis, table_name)\<close>: the quoted query, the unquoted query, then
  the listing of the user's items. The first two keep the items with the exact title and
  owner, the third the items with the exact title and the type \<^verbatim>\<open>Feature Service\<close>.
  An exception in any of the three calls ends the search with \<^verbatim>\<open>None\<close>.
\<close>

definition find_existing_table :: "string \<Rightarrow> world \<Rightarrow> item option \<times> world" where
  "find_existing_table table_name w =
     (let (results, w1) =
            content_search True table_name (current_user w) ''Feature Service'' 100 w in
      case results of
        Raised \<Rightarrow> (None, w1)
      | Got rs \<Rightarrow>
          (case find (\<lambda>i. i_title i = table_name \<and> i_owner i = current_user w1) rs of
             Some it \<Rightarrow> (Some it, w1)
           | None \<Rightarrow>
               (let (results2, w2) =
                      content_search False table_name (current_user w1) ''Feature Service'' 100 w1 in
                case results2 of
                  Raised \<Rightarrow> (None, w2)
                | Got rs2 \<Rightarrow>
                    (case find (\<lambda>i. i_title i = table_name \<and> i_owner i = current_user w2) rs2 of
                       Some it \<Rightarrow> (Some it, w2)
                     | None \<Rightarrow>
                         (let (user_items, w3) = my_items 1000 w2 in
                          case user_items of
                            Raised \<Rightarrow> (None, w3)
                          | Got us \<Rightarrow>
                              (find (\<lambda>i. i_title i = table_name \<and> i_type i = ''Feature Service'') us,
                               w3))))))"


section \<open>Source staging store\<close>

text \<open>\<^verbatim>\<open>find_source_csv_item(gis, table_name)\<close>: two queries for \<^verbatim>\<open>{table_name}_source\<close>.\<close>

definition find_source_csv_item :: "string \<Rightarrow> world \<Rightarrow> item option \<times> world" where
  "find_source_csv_item table_name w =
     (let csv_title = table_name @ ''_source'';
          (results, w1) = content_search True csv_title (current_user w) ''CSV'' 50 w in
      case results of
        Raised \<Rightarrow> (None, w1)
      | Got rs \<Rightarrow>
          (case find (\<lambda>i. i_title i = csv_title \<and> i_owner i = current_user w1) rs of
             Some it \<Rightarrow> (Some it, w1)
           | None \<Rightarrow>
               (let (results2, w2) =
                      content_search False csv_title (current_user w1) ''CSV'' 50 w1 in
                case results2 of
                  Raised \<Rightarrow> (None, w2)
                | Got rs2 \<Rightarrow>
                    (find (\<lambda>i. i_title i = csv_title \<and> i_owner i = current_user w2) rs2, w2))))"

text \<open>
  The serialised dataset: every column of every row, a missing value rendered empty
  (\<^verbatim>\<open>fillna('')\<close>).
\<close>

definition row_get :: "feature \<Rightarrow> string \<Rightarrow> pyval" where
  "row_get row col = (case map_of row col of Some v \<Rightarrow> v | None \<Rightarrow> PNone)"

definition to_csv :: "dataframe \<Rightarrow> feature list" where
  "to_csv df =
     map (\<lambda>row. map (\<lambda>col. (col, if row_get row col = PNone then PStr [] else row_get row col))
                   (df_columns df))
         (df_rows df)"

text \<open>\<^verbatim>\<open>s.replace(old, new)\<close> for single characters.\<close>

definition replace_char :: "char \<Rightarrow> char \<Rightarrow> string \<Rightarrow> string" where
  "replace_char old new s = map (\<lambda>c. if c = old then new else c) s"

text \<open>
  \<^verbatim>\<open>get_folder_name(folder)\<close>: the notebook passes the folder as a name or as
  \<^verbatim>\<open>None\<close>, and both are returned as they are. \<open>truthy\<close> is Python's test
  \<^verbatim>\<open>if folder_name:\<close>.
\<close>

definition get_folder_name :: "string option \<Rightarrow> string option" where
  "get_folder_name folder = folder"

definition truthy :: "string option \<Rightarrow> bool" where
  "truthy s = (s \<noteq> None \<and> s \<noteq> Some [])"

definition set_item_data :: "nat \<Rightarrow> feature list \<Rightarrow> world \<Rightarrow> world" where
  "set_item_data n dat w =
     w\<lparr>items := upd_first (\<lambda>i. i_id i = n) (\<lambda>it. it\<lparr>i_data := dat\<rparr>) (items w)\<rparr>"

text \<open>
  \<^verbatim>\<open>update_source_csv_item(gis, csv_item, dataframe, folder)\<close>:
  \<^verbatim>\<open>
    try:
        ...
        temp_csv_path = f"/arcgis/home/{csv_item.title.replace(' ', '_')}_temp.csv"
        df_copy.to_csv(temp_csv_path, index=False)
        update_result = csv_item.update(data=temp_csv_path)
        try:
            if os.path.exists(temp_csv_path): os.remove(temp_csv_path)
        except: pass
        if update_result: return True
        else: return False
    except Exception as e:
        return False
  \<close>
\<close>

definition update_temp_path :: "item \<Rightarrow> string" where
  "update_temp_path csv_item =
     ''/arcgis/home/'' @ replace_char CHR '' '' CHR ''_'' (i_title csv_item) @ ''_temp.csv''"

definition update_source_csv_item ::
  "item \<Rightarrow> dataframe \<Rightarrow> string option \<Rightarrow> world \<Rightarrow> bool \<times> world" where
  "update_source_csv_item csv_item df folder w =
     (let temp_csv_path = update_temp_path csv_item;
          w1 = write_file temp_csv_path w;
          (out, w2) = call (UpdateData (i_id csv_item)) w1 in
      if out = Raise then (False, w2)
      else let update_result = (\<not> falsy out);
               w3 = (if update_result then set_item_data (i_id csv_item) (to_csv df) w2 else w2);
               w4 = remove_file temp_csv_path w3
           in (update_result, w4))"

text \<open>
  \<^verbatim>\<open>create_source_csv_item(gis, table_name, dataframe, folder)\<close>:
  \<^verbatim>\<open>
    try:
        ...
        temp_csv_path = f"/arcgis/home/{csv_filename}"
        df_copy.to_csv(temp_csv_path, index=False)
        ...
        csv_item = None
        try:                                   # Method 1
            if folder_name:
                target_folder = gis.content.folders.get(folder=folder_name)
                if target_folder:
                    add_result = target_folder.add(item_properties=item_props, file=temp_csv_path)
                    csv_item = add_result.result() if hasattr(add_result, 'result') else add_result
        except Exception as folder_add_error: ...
        if csv_item is None:                   # Method 2
            try:
                csv_item = gis.content.add(item_properties=item_props, data=temp_csv_path,
                                           folder=folder_name)
            except Exception as add_error:
                return None
        try:
            if os.path.exists(temp_csv_path): os.remove(temp_csv_path)
        except: pass
        return csv_item
    except Exception as e:
        return None
  \<close>
\<close>

definition create_temp_path :: "string \<Rightarrow> string" where
  "create_temp_path table_name =
     ''/arcgis/home/'' @ replace_char CHR '' '' CHR ''_'' table_name @ ''.csv''"

text \<open>
  \<^verbatim>\<open>target_folder.add(...)\<close> inside the handler of Method 1: an exception leaves
  \<^verbatim>\<open>csv_item\<close> at \<^verbatim>\<open>None\<close>, otherwise \<^verbatim>\<open>csv_item\<close> is what the call answers.
\<close>

definition folder_add ::
  "string \<Rightarrow> string \<Rightarrow> dataframe \<Rightarrow> world \<Rightarrow> item pyobj \<times> world" where
  "folder_add folder_name csv_title df w =
     (let (out, w1) = call (FolderAdd folder_name csv_title) w in
      if out = Raise \<or> out = RetNone then (PyNone, w1)
      else if out = RetFalse then (PyFalse, w1)
      else (let (it, w2) = add_item csv_title ''CSV'' [] (to_csv df) w1 in (Obj it, w2)))"

definition csv_method_1 ::
  "string option \<Rightarrow> string \<Rightarrow> dataframe \<Rightarrow> world \<Rightarrow> item pyobj \<times> world" where
  "csv_method_1 folder_name csv_title df w =
     (if truthy folder_name
      then (let (out, wa) = call (FolderGet (the folder_name)) w in
            if succeeded out then folder_add (the folder_name) csv_title df wa
            else (PyNone, wa))
      else (PyNone, w))"

definition csv_method_2 ::
  "string \<Rightarrow> string \<Rightarrow> dataframe \<Rightarrow> world \<Rightarrow> item option \<times> world" where
  "csv_method_2 temp_csv_path csv_title df w =
     (let (out, w3) = call (ContentAdd csv_title) w in
      if out = Raise then (None, w3)
      else if falsy out then (None, remove_file temp_csv_path w3)
      else (let (it, w4) = add_item csv_title ''CSV'' [] (to_csv df) w3
            in (Some it, remove_file temp_csv_path w4)))"

text \<open>
  The result \<open>None\<close> stands for a returned \<^verbatim>\<open>None\<close> or \<^verbatim>\<open>False\<close>: the caller
  tests \<^verbatim>\<open>if not csv_item\<close>.
\<close>

definition create_source_csv_item ::
  "string \<Rightarrow> dataframe \<Rightarrow> string option \<Rightarrow> world \<Rightarrow> item option \<times> world" where
  "create_source_csv_item table_name df folder w =
     (let temp_csv_path = create_temp_path table_name;
          w1 = write_file temp_csv_path w;
          csv_title = table_name @ ''_source'';
          folder_name = get_folder_name folder;
          (csv_item, w2) = csv_method_1 folder_name csv_title df w1
      in case csv_item of
           Obj it \<Rightarrow> (Some it, remove_file temp_csv_path w2)
         | PyFalse \<Rightarrow> (None, remove_file temp_csv_path w2)
         | PyNone \<Rightarrow> csv_method_2 temp_csv_path csv_title df w2)"


section \<open>Batch upsert fallback\<close>

text \<open>
  \<^verbatim>\<open>add_features_in_batches(layer, dataframe, batch_size=50)\<close>. The dictionaries
  \<^verbatim>\<open>layer_field_info\<close>, \<^verbatim>\<open>df_columns_lower\<close> and \<^verbatim>\<open>attributes\<close> keep insertion
  order and overwrite on a repeated key, as \<open>AList.update\<close> does.
\<close>

record field_info =
  fi_name :: string
  fi_type :: string
  fi_length :: int

definition system_fields :: "string list" where
  "system_fields = [''objectid'', ''fid'', ''globalid'']"

definition field_info_of :: "field \<Rightarrow> field_info" where
  "field_info_of f =
     \<lparr>fi_name = f_name f,
      fi_type = (case f_type f of None \<Rightarrow> ''esriFieldTypeString'' | Some t \<Rightarrow> t),
      fi_length = (case f_length f of None \<Rightarrow> 256 | Some n \<Rightarrow> n)\<rparr>"

definition layer_field_info :: "field list \<Rightarrow> (string \<times> field_info) list" where
  "layer_field_info layer_fields =
     foldl (\<lambda>acc f. let field_name = lower (f_name f) in
                     if field_name \<notin> set system_fields
                     then AList.update field_name (field_info_of f) acc else acc)
           [] layer_fields"

definition df_columns_lower :: "string list \<Rightarrow> (string \<times> string) list" where
  "df_columns_lower cols = foldl (\<lambda>acc col. AList.update (lower col) col acc) [] cols"

text \<open>
  \<^verbatim>\<open>
    if value is not None and field_info['type'] == 'esriFieldTypeString':
        value = str(value)
        max_len = field_info.get('length', 256)
        if len(value) > max_len:
            ...
            value = value[:max_len]
  \<close>
\<close>

definition field_value :: "field_info \<Rightarrow> pyval \<Rightarrow> pyval" where
  "field_value info v =
     (if v \<noteq> PNone \<and> fi_type info = ''esriFieldTypeString''
      then (let s = py_str v; max_len = fi_length info in
            PStr (if int (length s) > max_len then py_slice_to s max_len else s))
      else v)"

definition build_attributes ::
  "(string \<times> field_info) list \<Rightarrow> (string \<times> string) list \<Rightarrow> feature \<Rightarrow> feature" where
  "build_attributes lfi cols row =
     foldl (\<lambda>attributes (layer_field_lower, info).
              case map_of cols layer_field_lower of
                None \<Rightarrow> attributes
              | Some df_col \<Rightarrow>
                  AList.update (fi_name info) (field_value info (row_get row df_col)) attributes)
           [] lfi"

text \<open>\<^verbatim>\<open>if attributes: all_features.append({"attributes": attributes})\<close>\<close>

definition build_features ::
  "(string \<times> field_info) list \<Rightarrow> (string \<times> string) list \<Rightarrow> feature list \<Rightarrow> feature list" where
  "build_features lfi cols rows = filter (\<lambda>a. a \<noteq> []) (map (build_attributes lfi cols) rows)"

text \<open>
  Before the features are built, the columns of dtype \<^verbatim>\<open>bool\<close> are turned into
  strings:
  \<^verbatim>\<open>
    for col in df_copy.columns:
        if df_copy[col].dtype == 'bool':
            df_copy[col] = df_copy[col].apply(lambda x: str(x) if pd.notna(x) else None)
  \<close>
  A column has that dtype when the frame has rows and every row holds a boolean in it.
\<close>

definition is_bool_column :: "dataframe \<Rightarrow> string \<Rightarrow> bool" where
  "is_bool_column df col =
     (df_rows df \<noteq> [] \<and>
      (\<forall>row \<in> set (df_rows df). case map_of row col of Some (PBool b) \<Rightarrow> True | _ \<Rightarrow> False))"

definition bools_to_str :: "dataframe \<Rightarrow> dataframe" where
  "bools_to_str df =
     df\<lparr>df_rows :=
          map (map (\<lambda>(k, v). (k, if k \<in> set (df_columns df) \<and> is_bool_column df k
                                 then PStr (py_str v) else v)))
              (df_rows df)\<rparr>"

text \<open>\<^verbatim>\<open>range(0, n, step)\<close> for a positive step.\<close>

definition py_range_step :: "nat \<Rightarrow> nat \<Rightarrow> nat list" where
  "py_range_step n step = map (\<lambda>j. j * step) [0..<(n + step - 1) div step]"

text \<open>
  The retry of a failed batch, one record at a time:
  \<^verbatim>\<open>
    for single_idx, single_feature in enumerate(batch):
        try:
            single_result = layer.edit_features(adds=[single_feature])
            if single_result and 'addResults' in single_result:
                if single_result['addResults'][0].get('success', False):
                    total_added += 1
                else: ...
        except Exception as single_err: ...
        time.sleep(0.1)
  \<close>
\<close>

fun retry_rows :: "layer_ref \<Rightarrow> feature list \<Rightarrow> nat \<Rightarrow> world \<Rightarrow> nat \<times> world" where
  "retry_rows ref [] total_added w = (total_added, w)"
| "retry_rows ref (single_feature # rest) total_added w =
     (let (single_result, w1) = edit_features ref [single_feature] w;
          total_added1 =
            (case single_result of
               Got (Some flags) \<Rightarrow> (if hd flags then total_added + 1 else total_added)
             | _ \<Rightarrow> total_added)
      in retry_rows ref rest total_added1 (sleep 100 w1))"

text \<open>
  The body of \<^verbatim>\<open>for i in range(0, len(all_features), batch_size)\<close>. The state is
  \<^verbatim>\<open>total_added\<close>, \<^verbatim>\<open>failed_batches\<close> and the world.
\<close>

definition batch_pause :: "nat \<Rightarrow> nat \<Rightarrow> nat \<Rightarrow> world \<Rightarrow> world" where
  "batch_pause i batch_size n w = (if i + batch_size < n then sleep 500 w else w)"

definition batch_step ::
  "layer_ref \<Rightarrow> nat \<Rightarrow> feature list \<Rightarrow> nat \<times> nat \<times> world \<Rightarrow> nat \<Rightarrow> nat \<times> nat \<times> world" where
  "batch_step ref batch_size all_features st i =
     (case st of (total_added, failed_batches, w) \<Rightarrow>
        (let batch = take batch_size (drop i all_features);
             (result, w1) = edit_features ref batch w in
         case result of
           Raised \<Rightarrow>
             (if batch_size > 1 \<and> length batch > 1
              then (let (total_added1, w2) = retry_rows ref batch total_added w1
                    in (total_added1, failed_batches + 1, w2))
              else (total_added, failed_batches + 1, w1))
         | Got None \<Rightarrow>
             (total_added, failed_batches + 1,
              batch_pause i batch_size (length all_features) w1)
         | Got (Some flags) \<Rightarrow>
             (total_added + length (filter (\<lambda>b. b) flags), failed_batches,
              batch_pause i batch_size (length all_features) w1)))"

text \<open>
  The state of the loop when \<open>j\<close> batches have been handled, starting in the world \<open>w\<close>
  with nothing added and no failed batch.
\<close>

definition loop_state ::
  "layer_ref \<Rightarrow> nat \<Rightarrow> feature list \<Rightarrow> world \<Rightarrow> nat \<Rightarrow> nat \<times> nat \<times> world" where
  "loop_state ref batch_size all_features w j =
     foldl (batch_step ref batch_size all_features) (0, 0, w)
       (take j (py_range_step (length all_features) batch_size))"

definition add_features_in_batches ::
  "layer_ref \<Rightarrow> dataframe \<Rightarrow> nat \<Rightarrow> world \<Rightarrow> bool \<times> world" where
  "add_features_in_batches ref df batch_size w =
     (case get_layer ref w of
        None \<Rightarrow> (False, w)
      | Some l \<Rightarrow>
          (let df_copy = bools_to_str df;
               all_features =
                 build_features (layer_field_info (l_fields l))
                   (df_columns_lower (df_columns df_copy)) (df_rows df_copy) in
           if all_features = [] then (False, w)
           else if batch_size = 0 then (False, w)
           else (let (total_added, failed_batches, w1) =
                       foldl (batch_step ref batch_size all_features) (0, 0, w)
                         (py_range_step (length all_features) batch_size)
                 in (if total_added = length all_features then True
                     else if total_added > 0 then True
                     else False, w1))))"


text \<open>The number of rows an answer of \<^verbatim>\<open>edit_features\<close> flags as inserted.\<close>

definition flagged :: "bool list option attempt \<Rightarrow> nat" where
  "flagged r = (case r of Got (Some flags) \<Rightarrow> length (filter (\<lambda>b. b) flags) | _ \<Rightarrow> 0)"


section \<open>Reconciliation engine\<close>

subsection \<open>Updating an existing table\<close>

text \<open>
  \<^verbatim>\<open>update_existing_table(item, dataframe, folder)\<close>. Its first part runs up to the
  staging artifact and yields the target layer and the artifact, or nothing when the
  function has already returned \<^verbatim>\<open>False\<close>:
  \<^verbatim>\<open>
    flc = FeatureLayerCollection.fromitem(item)
    if flc.tables and len(flc.tables) > 0: target_layer = flc.tables[0]
    elif flc.layers and len(flc.layers) > 0: target_layer = flc.layers[0]
    else: return False
    try:
        delete_result = target_layer.delete_features(where="1=1")
        time.sleep(2)
    except Exception as del_error:
        return False
    csv_item = find_source_csv_item(gis, item.title)
    if csv_item:
        if not update_source_csv_item(gis, csv_item, dataframe, folder): return False
    else:
        csv_item = create_source_csv_item(gis, item.title, dataframe, folder)
        if not csv_item: return False
  \<close>
  The service is read from the sink as it is when \<^verbatim>\<open>fromitem\<close> is called; an exception
  there, or an answer \<^verbatim>\<open>None\<close> or \<^verbatim>\<open>False\<close> whose \<^verbatim>\<open>tables\<close> cannot be read, is
  caught by the outer handler, which returns \<^verbatim>\<open>False\<close>.
\<close>

definition stage_source_csv ::
  "item \<Rightarrow> dataframe \<Rightarrow> string option \<Rightarrow> world \<Rightarrow> item option \<times> world" where
  "stage_source_csv item df folder w =
     (let (found, w1) = find_source_csv_item (i_title item) w in
      case found of
        Some csv_item \<Rightarrow>
          (let (ok, w2) = update_source_csv_item csv_item df folder w1 in
           if \<not> ok then (None, w2) else (Some csv_item, w2))
      | None \<Rightarrow> create_source_csv_item (i_title item) df folder w1)"

definition target_layer_of :: "item \<Rightarrow> layer_ref option" where
  "target_layer_of live =
     (if i_tables live \<noteq> [] then Some (i_id live, InTables)
      else if i_layers live \<noteq> [] then Some (i_id live, InLayers)
      else None)"

definition update_prepare ::
  "item \<Rightarrow> dataframe \<Rightarrow> string option \<Rightarrow> world \<Rightarrow> (layer_ref \<times> item) option \<times> world" where
  "update_prepare item df folder w =
     (let (out, w1) = call (FromItem (i_id item)) w in
      if \<not> succeeded out then (None, w1)
      else case lookup_item (i_id item) w1 of
        None \<Rightarrow> (None, w1)
      | Some live \<Rightarrow>
          (case target_layer_of live of
             None \<Rightarrow> (None, w1)
           | Some target_layer \<Rightarrow>
               (let (deleted, w2) = delete_features target_layer w1 in
                if deleted = Raised then (None, w2)
                else (let (csv_item, w3) = stage_source_csv item df folder (sleep 2000 w2) in
                      case csv_item of
                        None \<Rightarrow> (None, w3)
                      | Some c \<Rightarrow> (Some (target_layer, c), w3)))))"

text \<open>
  The second part appends from the staging artifact and falls back to the batch insert:
  \<^verbatim>\<open>
    try:
        append_result = target_layer.append(item_id=csv_item.id, upload_format="csv", ...)
        if append_result is not None: return True
    except Exception as append_error: ...
    try:
        success = add_features_in_batches(target_layer, dataframe)
        if success: return True
        else: return False
    except Exception as edit_error:
        return False
  \<close>
  The test is \<^verbatim>\<open>is not None\<close>: an append that answers \<^verbatim>\<open>False\<close> counts as done,
  although it has appended nothing, and only an exception or the answer \<^verbatim>\<open>None\<close> leads
  to the fallback.
\<close>

definition staged_rows :: "item \<Rightarrow> world \<Rightarrow> feature list" where
  "staged_rows csv_item w =
     (case lookup_item (i_id csv_item) w of None \<Rightarrow> [] | Some c \<Rightarrow> i_data c)"

definition append_or_fallback ::
  "layer_ref \<Rightarrow> item \<Rightarrow> dataframe \<Rightarrow> world \<Rightarrow> bool \<times> world" where
  "append_or_fallback target_layer csv_item df w =
     (let (out, w1) = layer_call (Append (fst target_layer) (i_id csv_item)) target_layer w in
      if out = Raise \<or> out = RetNone then add_features_in_batches target_layer df 50 w1
      else if out = RetFalse then (True, w1)
      else (True, upd_layer_rows target_layer (\<lambda>rows. rows @ staged_rows csv_item w1) w1))"

definition update_existing_table ::
  "item \<Rightarrow> dataframe \<Rightarrow> string option \<Rightarrow> world \<Rightarrow> bool \<times> world" where
  "update_existing_table item df folder w =
     (let (prepared, w1) = update_prepare item df folder w in
      case prepared of
        None \<Rightarrow> (False, w1)
      | Some (target_layer, csv_item) \<Rightarrow> append_or_fallback target_layer csv_item df w1)"

subsection \<open>Creating a new table\<close>

text \<open>
  \<^verbatim>\<open>create_new_table(gis, table_name, dataframe, folder, description)\<close>: stage the CSV
  item, analyze it, publish it as a hosted table, rename the table, move it to the
  folder, remove the local file. An exception outside the inner handlers returns
  \<^verbatim>\<open>None\<close>; so does a call that answers \<^verbatim>\<open>None\<close> where an object is used next.
  The published table gets one string field of length 256 for each column.
\<close>

definition move_to_folder :: "item \<Rightarrow> string \<Rightarrow> world \<Rightarrow> world" where
  "move_to_folder published folder_name w =
     (let (out1, w1) = call (Move (i_id published) folder_name) w in
      if succeeded out1 then w1
      else (let (out2, w2) = call (Move (i_id published) folder_name) w1 in
            if succeeded out2 then w2
            else (let (out3, w3) = call (FolderGet folder_name) w2 in
                  if succeeded out3 then snd (call (Move (i_id published) folder_name) w3)
                  else w3)))"

definition inferred_layer :: "dataframe \<Rightarrow> layer" where
  "inferred_layer df =
     \<lparr>l_fields = map (\<lambda>c. \<lparr>f_name = c, f_type = Some ''esriFieldTypeString'',
                             f_length = Some 256\<rparr>) (df_columns df),
      l_rows = to_csv df\<rparr>"

definition set_item_title :: "nat \<Rightarrow> string \<Rightarrow> world \<Rightarrow> world" where
  "set_item_title n ttl w =
     w\<lparr>items := upd_first (\<lambda>i. i_id i = n) (\<lambda>it. it\<lparr>i_title := ttl\<rparr>) (items w)\<rparr>"

definition publish_csv ::
  "string \<Rightarrow> dataframe \<Rightarrow> string option \<Rightarrow> string \<Rightarrow> item option \<Rightarrow> world
     \<Rightarrow> item option \<times> world" where
  "publish_csv table_name df folder_name temp_csv_path csv_item w =
     (let (out1, w1) = call (Analyze (map_option i_id csv_item)) w in
      if \<not> succeeded out1 then (None, w1)
      else case csv_item of
        None \<Rightarrow> (None, w1)
      | Some c \<Rightarrow>
          (let service_name =
                 replace_char CHR ''-'' CHR ''_'' (replace_char CHR '' '' CHR ''_'' table_name);
               (out2, w2) = call (Publish (i_id c)) w1 in
           if \<not> succeeded out2 then (None, w2)
           else (let (published, w3) =
                       add_item service_name ''Feature Service'' [inferred_layer df] [] w2;
                     (out3, w4) = call (UpdateProps (i_id published)) w3 in
                 if out3 = Raise then (None, w4)
                 else (let w5 = (if falsy out3 then w4
                                 else set_item_title (i_id published) table_name w4);
                           published_item =
                             (if falsy out3 then published
                              else published\<lparr>i_title := table_name\<rparr>);
                           w6 = (if truthy folder_name
                                 then move_to_folder published_item (the folder_name) w5
                                 else w5)
                       in (Some published_item, remove_file temp_csv_path w6)))))"

definition create_new_table ::
  "string \<Rightarrow> dataframe \<Rightarrow> string option \<Rightarrow> string \<Rightarrow> world \<Rightarrow> item option \<times> world" where
  "create_new_table table_name df folder description w =
     (let temp_csv_path = create_temp_path table_name;
          w1 = write_file temp_csv_path w;
          folder_name = get_folder_name folder;
          (target_folder, w2) =
            (if truthy folder_name
             then (let (out, wa) = call (FolderGet (the folder_name)) w1 in (succeeded out, wa))
             else (False, w1));
          csv_title = table_name @ ''_source'';
          (csv_item, w3) =
            (if target_folder then folder_add (the folder_name) csv_title df w2
             else (PyNone, w2))
      in case csv_item of
           Obj c \<Rightarrow> publish_csv table_name df folder_name temp_csv_path (Some c) w3
         | PyFalse \<Rightarrow> publish_csv table_name df folder_name temp_csv_path None w3
         | PyNone \<Rightarrow>
             (let (out, w4) = call (ContentAdd csv_title) w3 in
              if out = Raise then (None, w4)
              else if falsy out
                then publish_csv table_name df folder_name temp_csv_path None w4
              else (let (c, w5) = add_item csv_title ''CSV'' [] (to_csv df) w4
                    in publish_csv table_name df folder_name temp_csv_path (Some c) w5)))"

subsection \<open>Publish or update\<close>

text \<open>
  The operator's prompt:
  \<^verbatim>\<open>
    while True:
        user_input = input(...).strip().lower()
        if user_input in ['yes', 'y']:
            try:
                item_id = existing_item.id
                existing_item.delete(permanent=True)
                time.sleep(2)
            except Exception as del_error:
                return None
            break
        elif user_input in ['no', 'n']: return existing_item
        elif user_input in ['skip', 's']: return existing_item
        else: print("Please enter 'yes', 'no', or 'skip'")
  \<close>
  The loop reads the answers the operator gives. When they run out before one of them is
  accepted, the function waits at \<^verbatim>\<open>input\<close> and does not return (\<open>NoAnswer\<close>).
\<close>

datatype decision = Recreate | Keep | DeleteFailed | NoAnswer

definition remove_item :: "nat \<Rightarrow> world \<Rightarrow> world" where
  "remove_item n w = w\<lparr>items := filter (\<lambda>i. i_id i \<noteq> n) (items w)\<rparr>"

fun prompt_operator :: "item \<Rightarrow> string list \<Rightarrow> world \<Rightarrow> decision \<times> world" where
  "prompt_operator existing_item [] w = (NoAnswer, w\<lparr>stdin := [], trace := trace w @ [Input]\<rparr>)"
| "prompt_operator existing_item (answer # rest) w =
     (let user_input = lower (strip answer);
          w1 = w\<lparr>stdin := rest, trace := trace w @ [Input]\<rparr> in
      if user_input \<in> set [''yes'', ''y'']
      then (let (out, w2) = call (DeleteItem (i_id existing_item)) w1 in
            if out = Raise then (DeleteFailed, w2)
            else (Recreate,
                  sleep 2000 (if falsy out then w2 else remove_item (i_id existing_item) w2)))
      else if user_input \<in> set [''no'', ''n''] then (Keep, w1)
      else if user_input \<in> set [''skip'', ''s''] then (Keep, w1)
      else prompt_operator existing_item rest w1)"

text \<open>
  A call of \<^verbatim>\<open>publish_or_update_table\<close> returns an item or \<^verbatim>\<open>None\<close>, or it blocks
  at the prompt.
\<close>

datatype 'a ret = Returns 'a | Blocks

definition share_with_org :: "item \<Rightarrow> world \<Rightarrow> world" where
  "share_with_org new_item w =
     (let (out, w1) = call (Share (i_id new_item)) w in
      if out = Raise then snd (call (ShareLegacy (i_id new_item)) w1) else w1)"

definition create_and_share ::
  "string \<Rightarrow> dataframe \<Rightarrow> string option \<Rightarrow> string \<Rightarrow> world \<Rightarrow> item option ret \<times> world" where
  "create_and_share table_name df folder description w =
     (let (new_item, w1) = create_new_table table_name df folder description w in
      case new_item of
        Some it \<Rightarrow> (Returns (Some it), share_with_org it w1)
      | None \<Rightarrow> (Returns None, w1))"

definition publish_or_update_table ::
  "string \<Rightarrow> dataframe \<Rightarrow> string option \<Rightarrow> string \<Rightarrow> world \<Rightarrow> item option ret \<times> world" where
  "publish_or_update_table table_name df folder description w =
     (if length (df_rows df) = 0 then (Returns None, w)
      else (let (existing, w1) = find_existing_table table_name w in
            case existing of
              None \<Rightarrow> create_and_share table_name df folder description w1
            | Some existing_item \<Rightarrow>
                (let (success, w2) = update_existing_table existing_item df folder w1 in
                 if success then (Returns (Some existing_item), w2)
                 else (let (answer, w3) = prompt_operator existing_item (stdin w2) w2 in
                       case answer of
                         Keep \<Rightarrow> (Returns (Some existing_item), w3)
                       | DeleteFailed \<Rightarrow> (Returns None, w3)
                       | NoAnswer \<Rightarrow> (Blocks, w3)
                       | Recreate \<Rightarrow> create_and_share table_name df folder description w3))))"

subsection \<open>Repeated runs\<close>




text \<open>
  The two calls that load rows into a table: the bulk append and the row insert of the
  batch fallback.
\<close>

fun is_load_call :: "event \<Rightarrow> bool" where
  "is_load_call (Append _ _) = True"
| "is_load_call (EditFeatures _ _) = True"
| "is_load_call _ = False"


text \<open>The attribute maps a trace has sent to the sink with \<^verbatim>\<open>edit_features\<close>.\<close>

fun features_of :: "event \<Rightarrow> feature list" where
  "features_of (EditFeatures _ fs) = fs"
| "features_of _ = []"

definition sent_features :: "event list \<Rightarrow> feature list" where
  "sent_features tr = concat (map features_of tr)"

text \<open>
  What is expected of an attribute map built from a dataset row for a layer with the
  fields \<open>flds\<close>: every key is the name of a field of the live schema that is not one of
  the system fields and that matches a dataset column up to case, and the value is the
  cell of that column, as a string cut to the field's length when the field is a string
  field. \<open>field_fits\<close> is the resulting bound on the length of the value.
\<close>

definition field_fits :: "field \<Rightarrow> pyval \<Rightarrow> bool" where
  "field_fits f v =
     (if fi_type (field_info_of f) = ''esriFieldTypeString''
      then (case v of
              PNone \<Rightarrow> True
            | PStr s \<Rightarrow> 0 \<le> fi_length (field_info_of f)
                         \<longrightarrow> int (length s) \<le> fi_length (field_info_of f)
            | _ \<Rightarrow> False)
      else True)"

definition sanitized :: "field list \<Rightarrow> string list \<Rightarrow> feature \<Rightarrow> feature \<Rightarrow> bool" where
  "sanitized flds cols row attributes =
     (\<forall>(k, v) \<in> set attributes.
        \<exists>f \<in> set flds. \<exists>col \<in> set cols.
          f_name f = k \<and> lower k \<notin> set system_fields \<and> lower col = lower k
          \<and> v = field_value (field_info_of f) (row_get row col) \<and> field_fits f v)"

text \<open>No editable field of the layer matches a column of the dataset.\<close>

definition no_field_matches :: "field list \<Rightarrow> string list \<Rightarrow> bool" where
  "no_field_matches flds cols =
     (\<forall>f \<in> set flds. lower (f_name f) \<in> set system_fields
                      \<or> lower (f_name f) \<notin> set (map lower cols))"


text \<open>
  The calls that change which identity a table name stands for: publishing a new hosted
  table and deleting an item. \<open>first_table\<close> is the table a name stands for: the first
  feature service of the current user with that title. \<open>said_yes\<close> is the answer that
  \<^verbatim>\<open>publish_or_update_table\<close> takes as the consent to delete and recreate.
\<close>

fun is_identity_call :: "event \<Rightarrow> bool" where
  "is_identity_call (Publish _) = True"
| "is_identity_call (DeleteItem _) = True"
| "is_identity_call _ = False"

definition first_table :: "string \<Rightarrow> world \<Rightarrow> item option" where
  "first_table table_name w =
     find (\<lambda>i. i_title i = table_name \<and> i_owner i = current_user w
               \<and> i_type i = ''Feature Service'') (items w)"


text \<open>
  What an update never changes: the current user, the answers the operator has still to
  give, the identity of the table a name stands for, and the calls made so far that
  publish or delete.
\<close>

definition update_frame ::
  "string \<Rightarrow> world \<Rightarrow> string \<times> string list \<times> nat option \<times> event list" where
  "update_frame table_name w =
     (current_user w, stdin w, map_option i_id (first_table table_name w),
      filter is_identity_call (trace w))"


section \<open>Example data\<close>

text \<open>
  A small sink used to run the functions on concrete inputs: one hosted table
  \<^verbatim>\<open>Group_Snapshot\<close> with one row, owned by the current user, and a dataset of two rows
  whose columns match the table's fields up to case, with one column the table lacks and
  one column of booleans.
\<close>

definition demo_fields :: "field list" where
  "demo_fields =
     [\<lparr>f_name = ''OBJECTID'', f_type = Some ''esriFieldTypeOID'', f_length = None\<rparr>,
      \<lparr>f_name = ''group_title'', f_type = Some ''esriFieldTypeString'', f_length = Some 5\<rparr>,
      \<lparr>f_name = ''member_count'', f_type = Some ''esriFieldTypeInteger'', f_length = None\<rparr>,
      \<lparr>f_name = ''is_hub'', f_type = Some ''esriFieldTypeString'', f_length = Some 10\<rparr>]"

definition demo_table :: item where
  "demo_table =
     \<lparr>i_id = 7, i_title = ''Group_Snapshot'', i_owner = ''analyst'',
      i_type = ''Feature Service'',
      i_tables = [\<lparr>l_fields = demo_fields,
                   l_rows = [[(''group_title'', PStr ''Old''), (''member_count'', PInt 3),
                              (''is_hub'', PStr ''False'')]]\<rparr>],
      i_layers = [], i_data = []\<rparr>"

definition demo_frame :: dataframe where
  "demo_frame =
     \<lparr>df_columns = [''Group_Title'', ''member_count'', ''is_hub'', ''extra''],
      df_rows = [[(''Group_Title'', PStr ''Hydrology''), (''member_count'', PInt 12),
                  (''is_hub'', PBool True), (''extra'', PStr ''x'')],
                 [(''Group_Title'', PStr ''Soil''), (''member_count'', PInt 7),
                  (''is_hub'', PBool False), (''extra'', PNone)]]\<rparr>"

definition demo_world :: "(nat \<Rightarrow> outcome) \<Rightarrow> string list \<Rightarrow> world" where
  "demo_world sc answers =
     \<lparr>items = [demo_table], script = sc, clock = 0, trace = [], stdin = answers,
      files = [], current_user = ''analyst'', next_id = 100\<rparr>"

definition demo_single :: dataframe where
  "demo_single =
     \<lparr>df_columns = [''Group_Title'', ''member_count''],
      df_rows = [[(''Group_Title'', PStr ''Hydrology''), (''member_count'', PInt 12)]]\<rparr>"

text \<open>The attribute maps built from \<open>demo_frame\<close> for the fields of \<open>demo_table\<close>.\<close>

definition demo_features :: "feature list" where
  "demo_features =
     [[(''group_title'', PStr ''Hydro''), (''member_count'', PInt 12),
       (''is_hub'', PStr ''True'')],
      [(''group_title'', PStr ''Soil''), (''member_count'', PInt 7),
       (''is_hub'', PStr ''False'')]]"


section \<open>Verified properties\<close>

subsection \<open>Field sanitizer\<close>

lemma py_slice_to_length: "0 \<le> n \<Longrightarrow> int (length (py_slice_to s n)) \<le> n"
  by (simp add: py_slice_to_def)

lemma endswith_append_self: "endswith (xs @ suf) suf"
  by (simp add: endswith_def)

text \<open>
  Claim C3, as stated: for a limit \<open>n > 3\<close> the result of \<^verbatim>\<open>truncate_string(s, n)\<close>
  ends with the marker \<^verbatim>\<open>...\<close> if and only if \<open>s\<close> is longer than \<open>n\<close>. This fails
  for a short string that ends with three dots itself: \<^verbatim>\<open>truncate_string("...", 4)\<close>
  is \<^verbatim>\<open>"..."\<close>, returned unchanged, although its length 3 is not above 4.
\<close>

theorem truncate_string_marker_counterexample:
  "\<not> (endswith (truncate_string (PStr ''...'') 4 True) ''...''
        \<longleftrightarrow> 4 < int (length ''...''))"
  by (simp add: truncate_string_def endswith_def)

text \<open>
  Claim C3, amended: for every string \<open>s\<close> and every limit \<open>n > 3\<close>, the length of
  \<^verbatim>\<open>truncate_string(s, n)\<close> is at most \<open>n\<close>, and the result ends with the marker
  \<^verbatim>\<open>...\<close> if and only if \<open>s\<close> is longer than \<open>n\<close> or \<open>s\<close> itself already ends with
  \<^verbatim>\<open>...\<close>.
\<close>

theorem truncate_string_bound_and_marker:
  assumes "3 < n"
  shows "int (length (truncate_string (PStr s) n True)) \<le> n
    \<and> (endswith (truncate_string (PStr s) n True) ''...''
         \<longleftrightarrow> (n < int (length s) \<or> endswith s ''...''))"
proof (cases "int (length s) \<le> n")
  case True
  then show ?thesis by (simp add: truncate_string_def)
next
  case False
  have "int (length (py_slice_to s (n - 3))) \<le> n - 3"
    using assms by (intro py_slice_to_length) simp
  with False assms show ?thesis
    by (simp add: truncate_string_def endswith_append_self)
qed

theorem truncate_string_bound_and_marker_witness:
  "(3::int) < 5 \<and> int (length (truncate_string (PStr ''abcdefg'') 5 True)) \<le> 5
    \<and> (endswith (truncate_string (PStr ''abcdefg'') 5 True) ''...''
         \<longleftrightarrow> (5 < int (length ''abcdefg'') \<or> endswith ''abcdefg'' ''...''))"
  using truncate_string_bound_and_marker [of 5 "''abcdefg''"] by simp

subsection \<open>Timestamps\<close>

lemma timestamp_sentinel:
  "convert_timestamp_to_date lib PNone = Inr None"
  "convert_timestamp_to_date lib (PInt (- 1)) = Inr None"
  "days_since lib PNone = Inr None"
  "days_since lib (PInt (- 1)) = Inr None"
  by (simp_all add: convert_timestamp_to_date_def days_since_def)

text \<open>
  Claim C9 says that \<^verbatim>\<open>convert_timestamp_to_date\<close> and \<^verbatim>\<open>days_since\<close> never raise.
  The handler lists \<^verbatim>\<open>ValueError\<close>, \<^verbatim>\<open>OSError\<close> and \<^verbatim>\<open>TypeError\<close> only. For the
  integer timestamp \<open>10^400\<close> the division by 1000 raises \<^verbatim>\<open>OverflowError\<close>, which
  the handler lets through, whatever the datetime library does.
\<close>

theorem timestamp_overflow_escapes:
  "convert_timestamp_to_date lib (PInt (10 ^ 400)) = Inl OverflowError
   \<and> days_since lib (PInt (10 ^ 400)) = Inl OverflowError"
  by (simp add: convert_timestamp_to_date_def days_since_def except_conversion_def
      dbl_overflow_def)


subsection \<open>Batch upsert fallback: rows inserted\<close>


lemma call_fields [simp]:
  "items (snd (call e w)) = items w"
  "trace (snd (call e w)) = trace w @ [e]"
  "files (snd (call e w)) = files w"
  "stdin (snd (call e w)) = stdin w"
  "current_user (snd (call e w)) = current_user w"
  "script (snd (call e w)) = script w"
  "clock (snd (call e w)) = clock w + 1"
  "fst (call e w) = script w (clock w)"
  by (simp_all add: call_def)

lemma sleep_fields [simp]:
  "items (sleep ms w) = items w"
  "trace (sleep ms w) = trace w @ [Sleep ms]"
  "files (sleep ms w) = files w"
  "stdin (sleep ms w) = stdin w"
  "current_user (sleep ms w) = current_user w"
  by (simp_all add: sleep_def)

lemma upd_layer_rows_fields [simp]:
  "trace (upd_layer_rows ref g w) = trace w"
  "files (upd_layer_rows ref g w) = files w"
  "stdin (upd_layer_rows ref g w) = stdin w"
  "current_user (upd_layer_rows ref g w) = current_user w"
  by (simp_all add: upd_layer_rows_def)

lemma find_upd_first:
  "(\<And>x. P (f x) = P x) \<Longrightarrow> find P (upd_first P f xs) = map_option f (find P xs)"
  by (induction xs) auto

lemma get_layer_upd_layer_rows:
  "get_layer ref (upd_layer_rows ref g w) =
     map_option (\<lambda>l. l\<lparr>l_rows := g (l_rows l)\<rparr>) (get_layer ref w)"
proof -
  have id: "\<And>x. (i_id (item_upd_rows (snd ref) g x) = fst ref) = (i_id x = fst ref)"
    by (simp add: item_upd_rows_def split: layer_kind.splits)
  show ?thesis
    unfolding get_layer_def lookup_item_def upd_layer_rows_def
    by (simp add: find_upd_first [where P = "\<lambda>i. i_id i = fst ref", OF id])
       (auto simp: item_layers_def item_upd_rows_def map_head_def
             split: option.splits layer_kind.splits list.splits)
qed

lemma layer_rows_upd_layer_rows:
  "get_layer ref w \<noteq> None \<Longrightarrow> layer_rows ref (upd_layer_rows ref g w) = g (layer_rows ref w)"
  by (auto simp: layer_rows_def get_layer_upd_layer_rows)


lemma get_layer_frame [simp]:
  "get_layer ref (w\<lparr>clock := c\<rparr>) = get_layer ref w"
  "get_layer ref (w\<lparr>trace := t\<rparr>) = get_layer ref w"
  "get_layer ref (w\<lparr>files := fs\<rparr>) = get_layer ref w"
  "get_layer ref (w\<lparr>stdin := a\<rparr>) = get_layer ref w"
  by (simp_all add: get_layer_def lookup_item_def)

lemma layer_rows_frame [simp]:
  "layer_rows ref (w\<lparr>clock := c\<rparr>) = layer_rows ref w"
  "layer_rows ref (w\<lparr>trace := t\<rparr>) = layer_rows ref w"
  "layer_rows ref (w\<lparr>files := fs\<rparr>) = layer_rows ref w"
  "layer_rows ref (w\<lparr>stdin := a\<rparr>) = layer_rows ref w"
  by (simp_all add: layer_rows_def)

lemma length_add_results [simp]: "length (add_results out n) = n"
  by (cases out) (simp_all add: add_results_def)

lemma length_accepted:
  "length flags = length adds \<Longrightarrow>
   length (filter snd (zip adds flags)) = length (filter (\<lambda>b. b) flags)"
proof (induction adds arbitrary: flags)
  case Nil then show ?case by simp
next
  case (Cons a adds)
  then obtain b bs where "flags = b # bs" by (cases flags) auto
  with Cons show ?case by simp
qed

lemma edit_features_trace:
  "trace (snd (edit_features ref adds w)) = trace w @ [EditFeatures (fst ref) adds]"
  by (simp add: edit_features_def layer_call_def call_def Let_def)

lemma edit_features_rows:
  "length (layer_rows ref (snd (edit_features ref adds w))) =
     length (layer_rows ref w) + flagged (fst (edit_features ref adds w))"
  by (auto simp: edit_features_def layer_call_def call_def Let_def flagged_def
        layer_rows_upd_layer_rows length_accepted)

lemma sleep_layer_rows [simp]: "layer_rows ref (sleep ms w) = layer_rows ref w"
  by (simp add: sleep_def)

lemma retry_rows_count:
  "length (layer_rows ref (snd (retry_rows ref batch t w)))
     = length (layer_rows ref w) + (fst (retry_rows ref batch t w) - t)
   \<and> t \<le> fst (retry_rows ref batch t w)"
proof (induction batch arbitrary: t w)
  case Nil
  then show ?case by simp
next
  case (Cons f rest)
  obtain r w1 where e: "edit_features ref [f] w = (r, w1)" by fastforce
  have rows: "length (layer_rows ref w1) = length (layer_rows ref w) + flagged r"
    using edit_features_rows [of ref "[f]" w] e by simp
  define t1 where "t1 = (case r of Got (Some flags) \<Rightarrow> (if hd flags then t + 1 else t) | _ \<Rightarrow> t)"
  have fl: "t1 = t + flagged r"
  proof (cases r)
    case Raised then show ?thesis by (simp add: t1_def flagged_def)
  next
    case (Got x)
    show ?thesis
    proof (cases x)
      case None with Got show ?thesis by (simp add: t1_def flagged_def)
    next
      case (Some flags)
      have "length flags = 1"
        using e Got Some
        by (auto simp: edit_features_def layer_call_def call_def Let_def split: if_splits)
      then obtain b where "flags = [b]" by (cases flags) auto
      with Got Some show ?thesis by (simp add: t1_def flagged_def)
    qed
  qed
  have step: "retry_rows ref (f # rest) t w = retry_rows ref rest t1 (sleep 100 w1)"
    using e by (simp add: t1_def)
  from Cons.IH [of t1 "sleep 100 w1"] rows fl step show ?case by simp
qed


lemma batch_pause_rows [simp]: "layer_rows ref (batch_pause i bs n w) = layer_rows ref w"
  by (simp add: batch_pause_def)

lemma batch_step_count:
  assumes "batch_step ref bs feats (t, f, w) i = (t', f', w')"
  shows "length (layer_rows ref w') = length (layer_rows ref w) + (t' - t) \<and> t \<le> t'"
proof -
  let ?batch = "take bs (drop i feats)"
  obtain r w1 where e: "edit_features ref ?batch w = (r, w1)" by fastforce
  have rows: "length (layer_rows ref w1) = length (layer_rows ref w) + flagged r"
    using edit_features_rows [of ref ?batch w] e by simp
  show ?thesis
  proof (cases r)
    case Raised
    show ?thesis
    proof (cases "1 < bs \<and> 1 < length ?batch")
      case True
      obtain t2 w2 where rr: "retry_rows ref ?batch t w1 = (t2, w2)" by fastforce
      from assms e Raised True rr have "t' = t2" "w' = w2"
        by (simp_all add: batch_step_def Let_def)
      with rr rows Raised show ?thesis
        using retry_rows_count [of ref ?batch t w1] by (simp add: flagged_def)
    next
      case False
      with assms e Raised have "t' = t" "w' = w1"
        by (auto simp: batch_step_def Let_def)
      with rows Raised show ?thesis by (simp add: flagged_def)
    qed
  next
    case (Got x)
    with assms e have "t' = t + flagged r" "layer_rows ref w' = layer_rows ref w1"
      by (auto simp: batch_step_def Let_def flagged_def split: option.splits)
    with rows show ?thesis by simp
  qed
qed

lemma batch_loop_count:
  assumes "foldl (batch_step ref bs feats) (t, f, w) idxs = (t', f', w')"
  shows "length (layer_rows ref w') = length (layer_rows ref w) + (t' - t) \<and> t \<le> t'"
  using assms
proof (induction idxs arbitrary: t f w)
  case Nil
  then show ?case by simp
next
  case (Cons i idxs)
  obtain t1 f1 w1 where s: "batch_step ref bs feats (t, f, w) i = (t1, f1, w1)"
    by (metis prod_cases3)
  from batch_step_count [OF s] Cons.IH [of t1 f1 w1] Cons.prems s show ?case by simp
qed

text \<open>
  Claim C5: \<^verbatim>\<open>add_features_in_batches\<close> returns success exactly when it has inserted
  at least one row. The number of rows inserted is the growth of the target layer: the
  rows the sink flagged as successful, in the batch calls and in the one-by-one retries.
  So all rows inserted and some rows inserted both report success, and only no row
  inserted reports failure.
\<close>

theorem batch_insert_success_iff_rows_inserted:
  assumes "add_features_in_batches ref df bs w = (r, w')"
  shows "r \<longleftrightarrow> length (layer_rows ref w) < length (layer_rows ref w')"
proof (cases "get_layer ref w")
  case None
  with assms show ?thesis by (auto simp: add_features_in_batches_def)
next
  case (Some l)
  define feats where "feats = build_features (layer_field_info (l_fields l))
                   (df_columns_lower (df_columns (bools_to_str df))) (df_rows (bools_to_str df))"
  show ?thesis
  proof (cases "feats = [] \<or> bs = 0")
    case True
    with assms Some have "r = False \<and> w' = w"
      by (cases "feats = []")
         (simp_all add: add_features_in_batches_def Let_def feats_def [symmetric])
    then show ?thesis by simp
  next
    case False
    obtain t f w1 where l: "foldl (batch_step ref bs feats) (0, 0, w)
                         (py_range_step (length feats) bs) = (t, f, w1)"
      by (metis prod_cases3)
    from Some False l have "add_features_in_batches ref df bs w =
        ((t = length feats \<or> 0 < t), w1)"
      by (simp add: add_features_in_batches_def Let_def feats_def [symmetric])
    with assms have "w' = w1" "r = (t = length feats \<or> 0 < t)"
      by simp_all
    moreover from False have "0 < length feats" by simp
    ultimately show ?thesis using batch_loop_count [OF l] by auto
  qed
qed

theorem batch_insert_success_iff_rows_inserted_witness:
  "add_features_in_batches (7, InTables) demo_frame 50 (demo_world (\<lambda>n. Flags [True, False]) [])
     = (True, snd (add_features_in_batches (7, InTables) demo_frame 50
                     (demo_world (\<lambda>n. Flags [True, False]) [])))
   \<and> length (layer_rows (7, InTables) (demo_world (\<lambda>n. Flags [True, False]) []))
       < length (layer_rows (7, InTables)
           (snd (add_features_in_batches (7, InTables) demo_frame 50
                   (demo_world (\<lambda>n. Flags [True, False]) []))))"
proof -
  let ?w = "demo_world (\<lambda>n. Flags [True, False]) []"
  let ?run = "add_features_in_batches (7, InTables) demo_frame 50 ?w"
  have t: "fst ?run = True" by code_simp
  then have e: "?run = (True, snd ?run)" by (metis prod.collapse)
  from batch_insert_success_iff_rows_inserted [OF e] e show ?thesis by simp
qed


subsection \<open>Batch upsert fallback: the retry of a failed batch\<close>

lemma retry_rows_trace:
  "trace (snd (retry_rows ref batch t w)) =
     trace w @ concat (map (\<lambda>row. [EditFeatures (fst ref) [row], Sleep 100]) batch)"
proof (induction batch arbitrary: t w)
  case Nil
  then show ?case by simp
next
  case (Cons row rest)
  obtain r w1 where e: "edit_features ref [row] w = (r, w1)" by fastforce
  then have "trace w1 = trace w @ [EditFeatures (fst ref) [row]]"
    using edit_features_trace [of ref "[row]" w] by simp
  with e Cons.IH show ?case by (simp add: Let_def)
qed

text \<open>
  Claim C7, as stated: every batch whose insert call throws has each of its rows retried
  individually. The retry is guarded by \<^verbatim>\<open>if batch_size > 1 and len(batch) > 1\<close>. For
  a dataset of one row whose insert call throws, the trace holds that one call and
  nothing after it: the row is not retried.
\<close>

theorem single_row_batch_not_retried:
  "fst (edit_features (7, InTables)
          [[(''group_title'', PStr ''Hydro''), (''member_count'', PInt 12)]]
          (demo_world (\<lambda>n. Raise) [])) = Raised
   \<and> trace (snd (add_features_in_batches (7, InTables) demo_single 50
                    (demo_world (\<lambda>n. Raise) [])))
       = [EditFeatures 7 [[(''group_title'', PStr ''Hydro''), (''member_count'', PInt 12)]]]"
  by code_simp

lemma loop_state_Suc:
  assumes "j < length (py_range_step (length feats) bs)"
  shows "loop_state ref bs feats w (Suc j) =
           batch_step ref bs feats (loop_state ref bs feats w j) (j * bs)"
proof -
  let ?idxs = "py_range_step (length feats) bs"
  have n: "?idxs ! j = j * bs"
    using assms by (simp add: py_range_step_def)
  have "take (Suc j) ?idxs = take j ?idxs @ [?idxs ! j]"
    using assms by (simp add: take_Suc_conv_app_nth)
  then show ?thesis by (simp add: loop_state_def n)
qed

lemma batch_step_raised_trace:
  assumes "fst (edit_features ref (take bs (drop i feats)) w) = Raised"
  shows "trace (snd (snd (batch_step ref bs feats (t, f, w) i))) =
           trace w @ EditFeatures (fst ref) (take bs (drop i feats)) #
             (if 1 < bs \<and> 1 < length (take bs (drop i feats))
              then concat (map (\<lambda>row. [EditFeatures (fst ref) [row], Sleep 100])
                               (take bs (drop i feats)))
              else [])"
  using assms edit_features_trace [of ref "take bs (drop i feats)" w]
    retry_rows_trace [of ref "take bs (drop i feats)" t
                         "snd (edit_features ref (take bs (drop i feats)) w)"]
  by (simp add: batch_step_def Let_def case_prod_beta)

lemma add_features_in_batches_loop:
  assumes "get_layer ref w = Some l"
    and "feats = build_features (layer_field_info (l_fields l))
                   (df_columns_lower (df_columns (bools_to_str df))) (df_rows (bools_to_str df))"
    and "feats \<noteq> []" and "0 < bs"
  shows "snd (add_features_in_batches ref df bs w) =
           snd (snd (loop_state ref bs feats w (length (py_range_step (length feats) bs))))"
  using assms
  by (simp add: add_features_in_batches_def Let_def loop_state_def case_prod_beta)

text \<open>
  Claim C7, amended: in \<^verbatim>\<open>add_features_in_batches\<close>, for every batch whose insert call
  throws: when the batch has more than one row (and the batch size is above 1), each row
  of the batch is then retried individually, in order, one insert call per row, each
  followed by a pause of 0.1 s; when the batch has one row, it is not retried. The world
  the function returns is the state of the loop after the last batch, and the events of
  the iteration that handles batch \<open>j\<close> (the trace between two consecutive states of the
  loop) are the failed batch call followed by exactly these retries, or by nothing.
\<close>

theorem failed_batch_retried_row_by_row:
  assumes layer: "get_layer ref w = Some l"
    and feats: "feats = build_features (layer_field_info (l_fields l))
                   (df_columns_lower (df_columns (bools_to_str df))) (df_rows (bools_to_str df))"
    and nonempty: "feats \<noteq> []" and bs: "0 < bs"
    and j: "j < length (py_range_step (length feats) bs)"
    and batch: "batch = take bs (drop (j * bs) feats)"
    and raised: "fst (edit_features ref batch (snd (snd (loop_state ref bs feats w j)))) = Raised"
  shows "snd (add_features_in_batches ref df bs w) =
           snd (snd (loop_state ref bs feats w (length (py_range_step (length feats) bs))))
    \<and> trace (snd (snd (loop_state ref bs feats w (Suc j)))) =
          trace (snd (snd (loop_state ref bs feats w j))) @
            EditFeatures (fst ref) batch #
              (if 1 < bs \<and> 1 < length batch
               then concat (map (\<lambda>row. [EditFeatures (fst ref) [row], Sleep 100]) batch)
               else [])"
proof -
  obtain t f wj where st: "loop_state ref bs feats w j = (t, f, wj)"
    by (metis prod_cases3)
  from raised st batch
  have r: "fst (edit_features ref (take bs (drop (j * bs) feats)) wj) = Raised" by simp
  have "trace (snd (snd (loop_state ref bs feats w (Suc j)))) =
          trace wj @ EditFeatures (fst ref) batch #
              (if 1 < bs \<and> 1 < length batch
               then concat (map (\<lambda>row. [EditFeatures (fst ref) [row], Sleep 100]) batch)
               else [])"
    unfolding loop_state_Suc [OF j] st batch
    by (rule batch_step_raised_trace [OF r])
  with st add_features_in_batches_loop [OF layer feats nonempty bs] show ?thesis by simp
qed

lemma demo_features_built_any_rows:
  "build_features (layer_field_info (l_fields \<lparr>l_fields = demo_fields, l_rows = rs\<rparr>))
     (df_columns_lower (df_columns (bools_to_str demo_frame))) (df_rows (bools_to_str demo_frame))
   = demo_features"
  by code_simp

theorem failed_batch_retried_row_by_row_witness:
  "get_layer (7, InTables) (demo_world (\<lambda>n. if n = 0 then Raise else Ok) [])
     = Some (hd (i_tables demo_table))
   \<and> demo_features \<noteq> [] \<and> (0::nat) < 50
   \<and> 0 < length (py_range_step (length demo_features) 50)
   \<and> fst (edit_features (7, InTables) demo_features
            (snd (snd (loop_state (7, InTables) 50 demo_features
                         (demo_world (\<lambda>n. if n = 0 then Raise else Ok) []) 0)))) = Raised
   \<and> snd (add_features_in_batches (7, InTables) demo_frame 50
            (demo_world (\<lambda>n. if n = 0 then Raise else Ok) [])) =
         snd (snd (loop_state (7, InTables) 50 demo_features
                     (demo_world (\<lambda>n. if n = 0 then Raise else Ok) [])
                     (length (py_range_step (length demo_features) 50))))
   \<and> trace (snd (snd (loop_state (7, InTables) 50 demo_features
                         (demo_world (\<lambda>n. if n = 0 then Raise else Ok) []) (Suc 0)))) =
        trace (snd (snd (loop_state (7, InTables) 50 demo_features
                           (demo_world (\<lambda>n. if n = 0 then Raise else Ok) []) 0))) @
          EditFeatures (fst (7::nat, InTables)) demo_features #
            (if (1::nat) < 50 \<and> 1 < length demo_features
             then concat (map (\<lambda>row. [EditFeatures (fst (7::nat, InTables)) [row], Sleep 100])
                              demo_features)
             else [])"
proof -
  let ?w = "demo_world (\<lambda>n. if n = 0 then Raise else Ok) []"
  have layer: "get_layer (7, InTables) ?w = Some (hd (i_tables demo_table))"
    by code_simp
  have feats: "demo_features =
      build_features (layer_field_info (l_fields (hd (i_tables demo_table))))
        (df_columns_lower (df_columns (bools_to_str demo_frame)))
        (df_rows (bools_to_str demo_frame))"
    by code_simp
  have nonempty: "demo_features \<noteq> []" by (simp add: demo_features_def)
  have bs: "(0::nat) < 50" by simp
  have j: "0 < length (py_range_step (length demo_features) 50)" by code_simp
  have batch: "demo_features = take 50 (drop (0 * 50) demo_features)"
    by (simp add: demo_features_def)
  have raised: "fst (edit_features (7, InTables) demo_features
      (snd (snd (loop_state (7, InTables) 50 demo_features ?w 0)))) = Raised"
    by code_simp
  from failed_batch_retried_row_by_row [OF layer feats nonempty bs j batch raised]
    layer nonempty bs j raised
  show ?thesis by blast
qed


subsection \<open>Source staging store: the local temporary file\<close>

text \<open>
  Claim C8 says that the local temporary CSV file is removed on every path of
  \<^verbatim>\<open>update_source_csv_item\<close> and \<^verbatim>\<open>create_source_csv_item\<close>. When
  \<^verbatim>\<open>csv_item.update\<close> throws, the outer handler of \<^verbatim>\<open>update_source_csv_item\<close>
  returns \<^verbatim>\<open>False\<close> before the clean-up; when \<^verbatim>\<open>gis.content.add\<close> throws,
  \<^verbatim>\<open>create_source_csv_item\<close> returns \<^verbatim>\<open>None\<close> from inside the handler, before the
  clean-up. In both runs the file written is still there at the end.
\<close>

theorem staging_temp_file_left_behind:
  "update_source_csv_item
       \<lparr>i_id = 8, i_title = ''Group_Snapshot_source'', i_owner = ''analyst'', i_type = ''CSV'',
        i_tables = [], i_layers = [], i_data = []\<rparr>
       demo_frame None (demo_world (\<lambda>n. Raise) [])
     = (False, (demo_world (\<lambda>n. Raise) [])
          \<lparr>clock := 1, trace := [UpdateData 8],
           files := [''/arcgis/home/Group_Snapshot_source_temp.csv'']\<rparr>)
   \<and> create_source_csv_item ''Group_Snapshot'' demo_frame None (demo_world (\<lambda>n. Raise) [])
     = (None, (demo_world (\<lambda>n. Raise) [])
          \<lparr>clock := 1, trace := [ContentAdd ''Group_Snapshot_source''],
           files := [''/arcgis/home/Group_Snapshot.csv'']\<rparr>)"
  by (simp add: update_source_csv_item_def create_source_csv_item_def update_temp_path_def
      create_temp_path_def replace_char_def write_file_def call_def demo_world_def
      get_folder_name_def truthy_def csv_method_1_def csv_method_2_def)

subsection \<open>Reconciliation engine: the empty dataset\<close>

text \<open>
  Claim C4: for every table name, folder and description, a call of
  \<^verbatim>\<open>publish_or_update_table\<close> with a dataset of zero rows returns \<^verbatim>\<open>None\<close> and
  leaves the world as it was: no call to the sink appears in the trace (no search, no
  delete, no staging, no publish) and the content of the sink is unchanged.
\<close>

theorem empty_dataset_is_noop:
  assumes "length (df_rows df) = 0"
  shows "publish_or_update_table table_name df folder description w = (Returns None, w)"
  using assms by (simp add: publish_or_update_table_def)

theorem empty_dataset_is_noop_witness:
  "length (df_rows \<lparr>df_columns = [''group_title''], df_rows = []\<rparr>) = 0
   \<and> publish_or_update_table ''Group_Snapshot'' \<lparr>df_columns = [''group_title''], df_rows = []\<rparr>
        (Some ''Reports'') ''snapshot'' (demo_world (\<lambda>n. Ok) [])
       = (Returns None, demo_world (\<lambda>n. Ok) [])"
  using empty_dataset_is_noop [of "\<lparr>df_columns = [''group_title''], df_rows = []\<rparr>"
      "''Group_Snapshot''" "Some ''Reports''" "''snapshot''" "demo_world (\<lambda>n. Ok) []"]
  by simp


subsection \<open>Updating an existing table: failure before the append\<close>

lemma write_file_trace [simp]: "trace (write_file p w) = trace w"
  by (simp add: write_file_def)

lemma remove_file_trace [simp]: "trace (remove_file p w) = trace w"
  by (simp add: remove_file_def)

lemma set_item_data_trace [simp]: "trace (set_item_data n d w) = trace w"
  by (simp add: set_item_data_def)

lemma add_item_trace [simp]: "trace (snd (add_item ttl typ tabs dat w)) = trace w"
  by (simp add: add_item_def Let_def)

lemma content_search_loads [simp]:
  "filter is_load_call (trace (snd (content_search q ttl own typ n w))) = filter is_load_call (trace w)"
  by (simp add: content_search_def call_def Let_def)

lemma find_source_csv_item_loads [simp]:
  "filter is_load_call (trace (snd (find_source_csv_item name w))) = filter is_load_call (trace w)"
  by (simp add: find_source_csv_item_def Let_def case_prod_beta
      split: attempt.splits option.splits)

lemma update_source_csv_item_loads [simp]:
  "filter is_load_call (trace (snd (update_source_csv_item c df folder w))) = filter is_load_call (trace w)"
  by (simp add: update_source_csv_item_def call_def Let_def)

lemma folder_add_loads [simp]:
  "filter is_load_call (trace (snd (folder_add fn t df w))) = filter is_load_call (trace w)"
  by (simp add: folder_add_def Let_def case_prod_beta)

lemma csv_method_1_loads [simp]:
  "filter is_load_call (trace (snd (csv_method_1 fn t df w))) = filter is_load_call (trace w)"
  by (simp add: csv_method_1_def Let_def case_prod_beta)

lemma csv_method_2_loads [simp]:
  "filter is_load_call (trace (snd (csv_method_2 p t df w))) = filter is_load_call (trace w)"
  by (simp add: csv_method_2_def Let_def case_prod_beta)

lemma create_source_csv_item_loads [simp]:
  "filter is_load_call (trace (snd (create_source_csv_item name df folder w))) = filter is_load_call (trace w)"
  by (simp add: create_source_csv_item_def Let_def case_prod_beta split: pyobj.splits)

lemma delete_features_loads [simp]:
  "filter is_load_call (trace (snd (delete_features ref w))) = filter is_load_call (trace w)"
  by (simp add: delete_features_def layer_call_def call_def Let_def)

lemma stage_source_csv_loads [simp]:
  "filter is_load_call (trace (snd (stage_source_csv item df folder w))) = filter is_load_call (trace w)"
  by (simp add: stage_source_csv_def Let_def case_prod_beta split: option.splits)

lemma update_prepare_loads:
  "filter is_load_call (trace (snd (update_prepare item df folder w))) = filter is_load_call (trace w)"
  by (simp add: update_prepare_def Let_def case_prod_beta split: option.splits)

lemma stage_source_csv_None:
  "fst (stage_source_csv item df folder w) = None \<longleftrightarrow>
     (case fst (find_source_csv_item (i_title item) w) of
        Some c \<Rightarrow> \<not> fst (update_source_csv_item c df folder
                           (snd (find_source_csv_item (i_title item) w)))
      | None \<Rightarrow> fst (create_source_csv_item (i_title item) df folder
                         (snd (find_source_csv_item (i_title item) w))) = None)"
  by (simp add: stage_source_csv_def case_prod_beta split: option.splits)

text \<open>
  Claim C6: when \<^verbatim>\<open>update_existing_table\<close> has read the service and chosen its
  target layer, and an error then occurs in its initial steps, it returns \<^verbatim>\<open>False\<close>
  and the trace has gained no call of the bulk append and no row insert of the batch
  fallback. The errors are: \<^verbatim>\<open>delete_features\<close> throws; a staging CSV item is found
  and \<^verbatim>\<open>update_source_csv_item\<close> returns \<^verbatim>\<open>False\<close>; no staging CSV item is found
  and \<^verbatim>\<open>create_source_csv_item\<close> returns no item.
\<close>

theorem error_before_append_returns_failure:
  assumes svc: "succeeded (fst (call (FromItem (i_id item)) w))"
    and live: "lookup_item (i_id item) (snd (call (FromItem (i_id item)) w)) = Some live"
    and tl: "target_layer_of live = Some target_layer"
    and err:
      "fst (delete_features target_layer (snd (call (FromItem (i_id item)) w))) = Raised
       \<or> (case fst (find_source_csv_item (i_title item)
                     (sleep 2000 (snd (delete_features target_layer
                                         (snd (call (FromItem (i_id item)) w)))))) of
            Some c \<Rightarrow>
              \<not> fst (update_source_csv_item c df folder
                      (snd (find_source_csv_item (i_title item)
                         (sleep 2000 (snd (delete_features target_layer
                                             (snd (call (FromItem (i_id item)) w))))))))
          | None \<Rightarrow>
              fst (create_source_csv_item (i_title item) df folder
                     (snd (find_source_csv_item (i_title item)
                        (sleep 2000 (snd (delete_features target_layer
                                            (snd (call (FromItem (i_id item)) w)))))))) = None)"
  shows "fst (update_existing_table item df folder w) = False
    \<and> filter is_load_call (trace (snd (update_existing_table item df folder w)))
        = filter is_load_call (trace w)"
proof -
  let ?w1 = "snd (call (FromItem (i_id item)) w)"
  let ?w2 = "snd (delete_features target_layer ?w1)"
  from err have "fst (delete_features target_layer ?w1) = Raised
      \<or> fst (stage_source_csv item df folder (sleep 2000 ?w2)) = None"
    by (simp add: stage_source_csv_None)
  then have "fst (update_prepare item df folder w) = None"
    using svc live tl
    by (auto simp: update_prepare_def case_prod_beta Let_def split: option.splits)
  then have "fst (update_existing_table item df folder w) = False"
    by (simp add: update_existing_table_def case_prod_beta)
  moreover have "filter is_load_call (trace (snd (update_existing_table item df folder w)))
        = filter is_load_call (trace w)"
    using \<open>fst (update_prepare item df folder w) = None\<close>
      update_prepare_loads [of item df folder w]
    by (simp add: update_existing_table_def case_prod_beta)
  ultimately show ?thesis by simp
qed

theorem error_before_append_returns_failure_witness:
  "succeeded (fst (call (FromItem (i_id demo_table))
                     (demo_world (\<lambda>n. if n = 1 then Raise else Ok) [])))
   \<and> lookup_item (i_id demo_table)
        (snd (call (FromItem (i_id demo_table))
                (demo_world (\<lambda>n. if n = 1 then Raise else Ok) []))) = Some demo_table
   \<and> target_layer_of demo_table = Some (7, InTables)
   \<and> fst (delete_features (7, InTables)
            (snd (call (FromItem (i_id demo_table))
                    (demo_world (\<lambda>n. if n = 1 then Raise else Ok) [])))) = Raised
   \<and> fst (update_existing_table demo_table demo_frame None
            (demo_world (\<lambda>n. if n = 1 then Raise else Ok) [])) = False
   \<and> filter is_load_call (trace (snd (update_existing_table demo_table demo_frame None
            (demo_world (\<lambda>n. if n = 1 then Raise else Ok) []))))
        = filter is_load_call (trace (demo_world (\<lambda>n. if n = 1 then Raise else Ok) []))"
proof -
  let ?w = "demo_world (\<lambda>n. if n = 1 then Raise else Ok) []"
  have svc: "succeeded (fst (call (FromItem (i_id demo_table)) ?w))" by code_simp
  have live: "lookup_item (i_id demo_table) (snd (call (FromItem (i_id demo_table)) ?w))
      = Some demo_table" by code_simp
  have tl: "target_layer_of demo_table = Some (7, InTables)" by code_simp
  have del: "fst (delete_features (7, InTables) (snd (call (FromItem (i_id demo_table)) ?w)))
      = Raised" by code_simp
  from error_before_append_returns_failure [OF svc live tl disjI1, OF del]
    svc live tl del
  show ?thesis by blast
qed

text \<open>
  The same at an input where the staging fails: no staging CSV item exists and
  \<^verbatim>\<open>gis.content.add\<close> throws.
\<close>

lemma error_in_staging_example:
  "fst (update_existing_table demo_table demo_frame None
          (demo_world (\<lambda>n. if n = 4 then Raise else Ok) [])) = False
   \<and> trace (snd (update_existing_table demo_table demo_frame None
          (demo_world (\<lambda>n. if n = 4 then Raise else Ok) []))) =
       [FromItem 7, DeleteFeatures 7, Sleep 2000,
        Search True ''Group_Snapshot_source'' ''analyst'' ''CSV'' 50,
        Search False ''Group_Snapshot_source'' ''analyst'' ''CSV'' 50,
        ContentAdd ''Group_Snapshot_source'']"
  by code_simp


subsection \<open>Batch upsert fallback: the attribute maps sent\<close>

lemma foldl_invariant:
  "P a \<Longrightarrow> (\<And>acc x. P acc \<Longrightarrow> x \<in> set xs \<Longrightarrow> P (f acc x)) \<Longrightarrow> P (foldl f a xs)"
  by (induction xs arbitrary: a) auto

lemma set_update_subset: "set (AList.update k v al) \<subseteq> insert (k, v) (set al)"
  by (induction al) auto

lemma layer_field_info_entries:
  assumes "(lf, info) \<in> set (layer_field_info flds)"
  shows "\<exists>f \<in> set flds. info = field_info_of f \<and> lf = lower (f_name f)
           \<and> lf \<notin> set system_fields"
proof -
  let ?P = "\<lambda>acc. \<forall>(lf, info) \<in> set acc. \<exists>f \<in> set flds. info = field_info_of f
              \<and> lf = lower (f_name f) \<and> lf \<notin> set system_fields"
  have "?P (layer_field_info flds)"
    unfolding layer_field_info_def
  proof (rule foldl_invariant)
    show "?P []" by simp
  next
    fix acc x
    assume a: "?P acc" and x: "x \<in> set flds"
    show "?P (let field_name = lower (f_name x) in
                if field_name \<notin> set system_fields
                then AList.update field_name (field_info_of x) acc else acc)"
      using a x set_update_subset [of "lower (f_name x)" "field_info_of x" acc]
      by (auto simp: Let_def)
  qed
  with assms show ?thesis by auto
qed

lemma layer_field_info_keys:
  "fst ` set (layer_field_info flds) =
     {lower (f_name f) | f. f \<in> set flds \<and> lower (f_name f) \<notin> set system_fields}"
proof (induction flds rule: rev_induct)
  case Nil
  then show ?case by (simp add: layer_field_info_def)
next
  case (snoc x xs)
  have "layer_field_info (xs @ [x]) =
      (if lower (f_name x) \<notin> set system_fields
       then AList.update (lower (f_name x)) (field_info_of x) (layer_field_info xs)
       else layer_field_info xs)"
    by (simp add: layer_field_info_def Let_def)
  with snoc show ?case by (auto simp: AList.dom_update)
qed

lemma df_columns_lower_snoc:
  "df_columns_lower (xs @ [x]) = AList.update (lower x) x (df_columns_lower xs)"
  by (simp add: df_columns_lower_def)

lemma df_columns_lower_keys: "fst ` set (df_columns_lower cols) = lower ` set cols"
  by (induction cols rule: rev_induct)
     (auto simp: df_columns_lower_snoc AList.dom_update, simp add: df_columns_lower_def)

lemma df_columns_lower_lookup:
  "map_of (df_columns_lower cols) lf = Some col \<Longrightarrow> col \<in> set cols \<and> lower col = lf"
proof (induction cols arbitrary: col rule: rev_induct)
  case Nil
  then show ?case by (simp add: df_columns_lower_def)
next
  case (snoc x xs)
  then show ?case
    by (auto simp: df_columns_lower_snoc AList.update_conv' split: if_splits)
qed

lemma build_attributes_snoc:
  "build_attributes (lfi @ [(lf, info)]) cols row =
     (case map_of cols lf of
        None \<Rightarrow> build_attributes lfi cols row
      | Some df_col \<Rightarrow> AList.update (fi_name info) (field_value info (row_get row df_col))
                        (build_attributes lfi cols row))"
  by (simp add: build_attributes_def split: option.splits)

lemma build_attributes_entries:
  "(k, v) \<in> set (build_attributes lfi cols row) \<Longrightarrow>
     \<exists>(lf, info) \<in> set lfi. \<exists>col. map_of cols lf = Some col \<and> k = fi_name info
        \<and> v = field_value info (row_get row col)"
proof (induction lfi arbitrary: k v rule: rev_induct)
  case Nil
  then show ?case by (simp add: build_attributes_def)
next
  case (snoc x xs)
  obtain lf info where x: "x = (lf, info)" by (cases x)
  show ?case
  proof (cases "map_of cols lf")
    case None
    with snoc x show ?thesis by (fastforce simp: build_attributes_snoc)
  next
    case (Some col)
    from snoc.prems x Some
    have "(k, v) = (fi_name info, field_value info (row_get row col))
          \<or> (k, v) \<in> set (build_attributes xs cols row)"
      using set_update_subset [of "fi_name info" "field_value info (row_get row col)"
          "build_attributes xs cols row"]
      by (auto simp: build_attributes_snoc)
    then show ?thesis
    proof
      assume "(k, v) = (fi_name info, field_value info (row_get row col))"
      with x Some show ?thesis by auto
    next
      assume "(k, v) \<in> set (build_attributes xs cols row)"
      from snoc.IH [OF this] show ?thesis by auto
    qed
  qed
qed

lemma build_attributes_empty:
  "build_attributes lfi cols row = [] \<longleftrightarrow> (\<forall>(lf, info) \<in> set lfi. map_of cols lf = None)"
proof (induction lfi rule: rev_induct)
  case Nil
  then show ?case by (simp add: build_attributes_def)
next
  case (snoc x xs)
  obtain lf info where x: "x = (lf, info)" by (cases x)
  show ?case
    using snoc x by (cases "map_of cols lf") (auto simp: build_attributes_snoc)
qed

lemma field_value_fits: "field_fits f (field_value (field_info_of f) v)"
  by (cases v) (auto simp: field_fits_def field_value_def Let_def py_slice_to_length)

lemma build_attributes_sanitized:
  "sanitized flds cols row
     (build_attributes (layer_field_info flds) (df_columns_lower cols) row)"
  unfolding sanitized_def
proof (clarify)
  fix k v
  assume "(k, v) \<in> set (build_attributes (layer_field_info flds) (df_columns_lower cols) row)"
  from build_attributes_entries [OF this]
  obtain lf info col where e: "(lf, info) \<in> set (layer_field_info flds)"
    and c: "map_of (df_columns_lower cols) lf = Some col"
    and k: "k = fi_name info" and v: "v = field_value info (row_get row col)"
    by auto
  from layer_field_info_entries [OF e]
  obtain f where f: "f \<in> set flds" "info = field_info_of f" "lf = lower (f_name f)"
    "lf \<notin> set system_fields" by auto
  from df_columns_lower_lookup [OF c] have col: "col \<in> set cols" "lower col = lf" by auto
  have kn: "k = f_name f" using k f(2) by (simp add: field_info_of_def)
  show "\<exists>f\<in>set flds. \<exists>col\<in>set cols. f_name f = k \<and> lower k \<notin> set system_fields
          \<and> lower col = lower k \<and> v = field_value (field_info_of f) (row_get row col)
          \<and> field_fits f v"
    using f col kn v field_value_fits [of f "row_get row col"] by auto
qed

lemma build_attributes_no_match:
  "build_attributes (layer_field_info flds) (df_columns_lower cols) row = []
     \<longleftrightarrow> no_field_matches flds cols"
proof -
  have "(\<forall>(lf, info) \<in> set (layer_field_info flds). map_of (df_columns_lower cols) lf = None)
        \<longleftrightarrow> (\<forall>lf \<in> fst ` set (layer_field_info flds). lf \<notin> fst ` set (df_columns_lower cols))"
    by (simp add: map_of_eq_None_iff split_beta)
  also have "\<dots> \<longleftrightarrow> no_field_matches flds cols"
    unfolding layer_field_info_keys df_columns_lower_keys no_field_matches_def by auto
  finally show ?thesis by (simp add: build_attributes_empty)
qed

lemma build_features_cases:
  "build_features (layer_field_info flds) (df_columns_lower cols) rows =
     (if no_field_matches flds cols then []
      else map (build_attributes (layer_field_info flds) (df_columns_lower cols)) rows)"
  by (simp add: build_features_def build_attributes_no_match filter_map comp_def)

lemma sent_features_append [simp]:
  "sent_features (xs @ ys) = sent_features xs @ sent_features ys"
  by (simp add: sent_features_def)

lemma sent_features_simps [simp]:
  "sent_features [] = []"
  "sent_features (EditFeatures n fs # tr) = fs @ sent_features tr"
  "sent_features (Sleep ms # tr) = sent_features tr"
  by (simp_all add: sent_features_def)

lemma sent_features_retries [simp]:
  "sent_features (concat (map (\<lambda>row. [EditFeatures n [row], Sleep 100]) batch)) = batch"
  by (induction batch) simp_all

lemma batch_pause_trace:
  "trace (batch_pause i bs n w) = trace w @ (if i + bs < n then [Sleep 500] else [])"
  by (simp add: batch_pause_def)

lemma batch_step_sent:
  assumes "batch_step ref bs feats (t, f, w) i = (t', f', w')"
  shows "\<exists>evs. trace w' = trace w @ evs \<and> set (sent_features evs) \<subseteq> set feats"
proof -
  let ?batch = "take bs (drop i feats)"
  have sub: "set ?batch \<subseteq> set feats"
    by (meson set_take_subset set_drop_subset subset_trans)
  obtain r w1 where e: "edit_features ref ?batch w = (r, w1)" by fastforce
  have tr: "trace w1 = trace w @ [EditFeatures (fst ref) ?batch]"
    using edit_features_trace [of ref ?batch w] e by simp
  show ?thesis
  proof (cases r)
    case Raised
    then have "fst (edit_features ref ?batch w) = Raised" using e by simp
    from batch_step_raised_trace [OF this, of t f] assms
    have "trace w' = trace w @ EditFeatures (fst ref) ?batch #
             (if 1 < bs \<and> 1 < length ?batch
              then concat (map (\<lambda>row. [EditFeatures (fst ref) [row], Sleep 100]) ?batch)
              else [])" by simp
    with sub show ?thesis by auto
  next
    case (Got x)
    with assms e have "w' = batch_pause i bs (length feats) w1"
      by (auto simp: batch_step_def Let_def split: option.splits)
    with tr have "trace w' = trace w @ (EditFeatures (fst ref) ?batch #
        (if i + bs < length feats then [Sleep 500] else []))"
      by (simp add: batch_pause_trace)
    with sub show ?thesis by auto
  qed
qed

lemma batch_loop_sent:
  assumes "foldl (batch_step ref bs feats) (t, f, w) idxs = (t', f', w')"
  shows "\<exists>evs. trace w' = trace w @ evs \<and> set (sent_features evs) \<subseteq> set feats"
  using assms
proof (induction idxs arbitrary: t f w)
  case Nil
  then show ?case by simp
next
  case (Cons i idxs)
  obtain t1 f1 w1 where s: "batch_step ref bs feats (t, f, w) i = (t1, f1, w1)"
    by (metis prod_cases3)
  from batch_step_sent [OF s] obtain evs1 where
    e1: "trace w1 = trace w @ evs1" "set (sent_features evs1) \<subseteq> set feats" by auto
  from Cons.IH [of t1 f1 w1] Cons.prems s obtain evs2 where
    e2: "trace w' = trace w1 @ evs2" "set (sent_features evs2) \<subseteq> set feats" by auto
  from e1 e2 have "trace w' = trace w @ (evs1 @ evs2)"
    "set (sent_features (evs1 @ evs2)) \<subseteq> set feats" by auto
  then show ?case by blast
qed

lemma add_features_in_batches_sent:
  assumes "get_layer ref w = Some l"
  shows "set (sent_features (drop (length (trace w))
                (trace (snd (add_features_in_batches ref df bs w)))))
         \<subseteq> set (build_features (layer_field_info (l_fields l))
                   (df_columns_lower (df_columns (bools_to_str df)))
                   (df_rows (bools_to_str df)))"
proof -
  define feats where "feats = build_features (layer_field_info (l_fields l))
      (df_columns_lower (df_columns (bools_to_str df))) (df_rows (bools_to_str df))"
  show ?thesis
  proof (cases "feats = [] \<or> bs = 0")
    case True
    with assms have "snd (add_features_in_batches ref df bs w) = w"
      by (cases "feats = []")
         (simp_all add: add_features_in_batches_def Let_def feats_def [symmetric])
    then show ?thesis by simp
  next
    case False
    obtain t f w1 where l: "foldl (batch_step ref bs feats) (0, 0, w)
                         (py_range_step (length feats) bs) = (t, f, w1)"
      by (metis prod_cases3)
    from assms False l have "snd (add_features_in_batches ref df bs w) = w1"
      by (simp add: add_features_in_batches_def Let_def feats_def [symmetric])
    moreover from batch_loop_sent [OF l] obtain evs where
      "trace w1 = trace w @ evs" "set (sent_features evs) \<subseteq> set feats" by auto
    ultimately show ?thesis by (simp add: feats_def)
  qed
qed

lemma bools_to_str_columns [simp]: "df_columns (bools_to_str df) = df_columns df"
  by (simp add: bools_to_str_def)

text \<open>
  Claim C10: in \<^verbatim>\<open>add_features_in_batches\<close>, every attribute map sent to the sink by
  the call is non-empty and is built from a row of the dataset (after the boolean columns
  are rendered as strings) so that each key is the name of a field of the layer's live
  schema, not one of the system fields \<^verbatim>\<open>objectid\<close>, \<^verbatim>\<open>fid\<close>, \<^verbatim>\<open>globalid\<close>, and
  equal up to case to a column of the dataset; the value is the cell of that column,
  rendered as a string and cut to the field's declared length (256 when none is declared)
  when the field is a string field and the cell is not \<^verbatim>\<open>None\<close>, so that it is no
  longer than a declared length that is not negative. A row whose columns match no
  such field gives an empty attribute map and is dropped: the features, whose number is
  the row total of the final test, are then none at all, and otherwise one per row. When
  every row is dropped the function returns \<^verbatim>\<open>False\<close> and leaves the world as it was,
  so no insert is attempted.
\<close>

theorem batch_features_match_live_schema:
  assumes "get_layer ref w = Some l"
  shows "(\<forall>a \<in> set (sent_features (drop (length (trace w))
                        (trace (snd (add_features_in_batches ref df bs w))))).
            a \<noteq> [] \<and> (\<exists>row \<in> set (df_rows (bools_to_str df)).
                          sanitized (l_fields l) (df_columns df) row a))
    \<and> build_features (layer_field_info (l_fields l)) (df_columns_lower (df_columns df))
          (df_rows (bools_to_str df))
        = (if no_field_matches (l_fields l) (df_columns df) then []
           else map (build_attributes (layer_field_info (l_fields l))
                       (df_columns_lower (df_columns df)))
                    (df_rows (bools_to_str df)))
    \<and> (no_field_matches (l_fields l) (df_columns df)
          \<longrightarrow> add_features_in_batches ref df bs w = (False, w))"
proof (intro conjI ballI impI)
  fix a
  assume "a \<in> set (sent_features (drop (length (trace w))
                        (trace (snd (add_features_in_batches ref df bs w)))))"
  with add_features_in_batches_sent [OF assms, of df bs]
  have "a \<in> set (build_features (layer_field_info (l_fields l))
                   (df_columns_lower (df_columns df)) (df_rows (bools_to_str df)))"
    by auto
  then obtain row where row: "row \<in> set (df_rows (bools_to_str df))"
    and a: "a = build_attributes (layer_field_info (l_fields l))
                  (df_columns_lower (df_columns df)) row" and ne: "a \<noteq> []"
    by (auto simp: build_features_def)
  from a build_attributes_sanitized [of "l_fields l" "df_columns df" row]
  have "sanitized (l_fields l) (df_columns df) row a" by simp
  with row show "\<exists>row \<in> set (df_rows (bools_to_str df)).
                          sanitized (l_fields l) (df_columns df) row a" by blast
  from ne show "a \<noteq> []" .
next
  show "build_features (layer_field_info (l_fields l)) (df_columns_lower (df_columns df))
          (df_rows (bools_to_str df))
        = (if no_field_matches (l_fields l) (df_columns df) then []
           else map (build_attributes (layer_field_info (l_fields l))
                       (df_columns_lower (df_columns df)))
                    (df_rows (bools_to_str df)))"
    by (rule build_features_cases)
next
  assume "no_field_matches (l_fields l) (df_columns df)"
  then have "build_features (layer_field_info (l_fields l)) (df_columns_lower (df_columns df))
          (df_rows (bools_to_str df)) = []"
    by (simp add: build_features_cases)
  with assms show "add_features_in_batches ref df bs w = (False, w)"
    by (simp add: add_features_in_batches_def Let_def)
qed

theorem batch_features_match_live_schema_witness:
  "get_layer (7, InTables) (demo_world (\<lambda>n. Ok) []) = Some (hd (i_tables demo_table))
   \<and> sent_features (drop (length (trace (demo_world (\<lambda>n. Ok) [])))
         (trace (snd (add_features_in_batches (7, InTables) demo_frame 50
                        (demo_world (\<lambda>n. Ok) []))))) = demo_features
   \<and> list_all (\<lambda>a. a \<noteq> [] \<and> (\<exists>row \<in> set (df_rows (bools_to_str demo_frame)).
                                 sanitized demo_fields (df_columns demo_frame) row a))
        demo_features"
proof -
  let ?w = "demo_world (\<lambda>n. Ok) []"
  have layer: "get_layer (7, InTables) ?w = Some (hd (i_tables demo_table))"
    by code_simp
  have sent: "sent_features (drop (length (trace ?w))
         (trace (snd (add_features_in_batches (7, InTables) demo_frame 50 ?w)))) = demo_features"
    by code_simp
  have flds: "l_fields (hd (i_tables demo_table)) = demo_fields"
    by (simp add: demo_table_def)
  from batch_features_match_live_schema [OF layer, of demo_frame 50] sent flds layer
  show ?thesis unfolding list_all_iff by simp
qed

text \<open>A dataset none of whose columns is a field of the table: nothing is sent.\<close>

lemma no_matching_field_example:
  "no_field_matches demo_fields [''objectid'', ''extra'']
   \<and> add_features_in_batches (7, InTables)
        \<lparr>df_columns = [''objectid'', ''extra''],
         df_rows = [[(''objectid'', PInt 1), (''extra'', PStr ''x'')]]\<rparr> 50
        (demo_world (\<lambda>n. Ok) [])
      = (False, demo_world (\<lambda>n. Ok) [])"
proof -
  have n: "no_field_matches demo_fields [''objectid'', ''extra'']" by code_simp
  have l: "get_layer (7, InTables) (demo_world (\<lambda>n. Ok) []) = Some (hd (i_tables demo_table))"
    by code_simp
  have "build_features (layer_field_info demo_fields)
          (df_columns_lower [''objectid'', ''extra''])
          (df_rows (bools_to_str \<lparr>df_columns = [''objectid'', ''extra''],
             df_rows = [[(''objectid'', PInt 1), (''extra'', PStr ''x'')]]\<rparr>)) = []"
    using n by (simp add: build_features_cases)
  with l n show ?thesis
    by (simp add: add_features_in_batches_def Let_def demo_table_def)
qed


subsection \<open>Publish or update: the failed update and the operator's refusal\<close>

text \<open>
  Claim C2 says that when both the bulk append and the batch fallback fail and the
  operator answers \<^verbatim>\<open>no\<close> or \<^verbatim>\<open>skip\<close>, the table is returned untouched, with no row
  modified. The update deletes every row of the table before it stages and appends. In
  this run the append throws and every row insert throws; the operator answers \<^verbatim>\<open>no\<close>,
  the notebook prints that the existing table remains unchanged and returns the table it
  found, with its identity; the row the table had is gone.
\<close>

theorem failed_update_then_no_empties_table:
  "fst (publish_or_update_table ''Group_Snapshot'' demo_frame None []
          (demo_world (\<lambda>n. if 6 \<le> n then Raise else Ok) [''no''])) = Returns (Some demo_table)
   \<and> layer_rows (7, InTables) (demo_world (\<lambda>n. if 6 \<le> n then Raise else Ok) [''no''])
       = [[(''group_title'', PStr ''Old''), (''member_count'', PInt 3),
           (''is_hub'', PStr ''False'')]]
   \<and> layer_rows (7, InTables)
        (snd (publish_or_update_table ''Group_Snapshot'' demo_frame None []
                (demo_world (\<lambda>n. if 6 \<le> n then Raise else Ok) [''no'']))) = []
   \<and> trace (snd (publish_or_update_table ''Group_Snapshot'' demo_frame None []
                (demo_world (\<lambda>n. if 6 \<le> n then Raise else Ok) [''no''])))
       = [Search True ''Group_Snapshot'' ''analyst'' ''Feature Service'' 100,
          FromItem 7, DeleteFeatures 7, Sleep 2000,
          Search True ''Group_Snapshot_source'' ''analyst'' ''CSV'' 50,
          Search False ''Group_Snapshot_source'' ''analyst'' ''CSV'' 50,
          ContentAdd ''Group_Snapshot_source'', Append 7 100,
          EditFeatures 7 demo_features,
          EditFeatures 7 [hd demo_features], Sleep 100,
          EditFeatures 7 [hd (tl demo_features)], Sleep 100,
          Input]"
  by code_simp

lemma failed_update_then_skip_example:
  "fst (publish_or_update_table ''Group_Snapshot'' demo_frame None []
          (demo_world (\<lambda>n. if 6 \<le> n then Raise else Ok) [''skip''])) = Returns (Some demo_table)
   \<and> layer_rows (7, InTables)
        (snd (publish_or_update_table ''Group_Snapshot'' demo_frame None []
                (demo_world (\<lambda>n. if 6 \<le> n then Raise else Ok) [''skip'']))) = []"
  by code_simp


subsection \<open>Publish or update: the identity of the table\<close>

lemma find_upd_first_id:
  assumes "\<And>x. P (f x) = P x" and "\<And>x. i_id (f x) = i_id x"
  shows "map_option i_id (find P (upd_first Q f xs)) = map_option i_id (find P xs)"
  using assms by (induction xs) auto

lemma find_snoc_other: "\<not> P y \<Longrightarrow> find P (xs @ [y]) = find P xs"
  by (induction xs) auto


lemma find_filter: "find P (filter Q xs) = find (\<lambda>x. Q x \<and> P x) xs"
  by (induction xs) auto

lemma frame_call [simp]:
  "\<not> is_identity_call e \<Longrightarrow> update_frame name (snd (call e w)) = update_frame name w"
  by (simp add: update_frame_def first_table_def call_def)

lemma frame_clock_trace [simp]:
  "\<not> is_identity_call e \<Longrightarrow>
     update_frame name (w\<lparr>clock := c, trace := trace w @ [e]\<rparr>) = update_frame name w"
  by (simp add: update_frame_def first_table_def)

lemma frame_sleep [simp]: "update_frame name (sleep ms w) = update_frame name w"
  by (simp add: update_frame_def first_table_def sleep_def)

lemma frame_files [simp]:
  "update_frame name (write_file p w) = update_frame name w"
  "update_frame name (remove_file p w) = update_frame name w"
  by (simp_all add: update_frame_def first_table_def write_file_def remove_file_def)

lemma frame_upd_layer_rows [simp]:
  "update_frame name (upd_layer_rows ref g w) = update_frame name w"
proof -
  have "map_option i_id (find (\<lambda>i. i_title i = name \<and> i_owner i = current_user w
               \<and> i_type i = ''Feature Service'')
          (upd_first (\<lambda>i. i_id i = fst ref) (item_upd_rows (snd ref) g) (items w)))
      = map_option i_id (find (\<lambda>i. i_title i = name \<and> i_owner i = current_user w
               \<and> i_type i = ''Feature Service'') (items w))"
    by (rule find_upd_first_id) (simp_all add: item_upd_rows_def split: layer_kind.splits)
  then show ?thesis
    by (simp add: update_frame_def first_table_def upd_layer_rows_def)
qed

lemma frame_set_item_data [simp]:
  "update_frame name (set_item_data n d w) = update_frame name w"
proof -
  have "map_option i_id (find (\<lambda>i. i_title i = name \<and> i_owner i = current_user w
               \<and> i_type i = ''Feature Service'')
          (upd_first (\<lambda>i. i_id i = n) (\<lambda>it. it\<lparr>i_data := d\<rparr>) (items w)))
      = map_option i_id (find (\<lambda>i. i_title i = name \<and> i_owner i = current_user w
               \<and> i_type i = ''Feature Service'') (items w))"
    by (rule find_upd_first_id) simp_all
  then show ?thesis
    by (simp add: update_frame_def first_table_def set_item_data_def)
qed

lemma frame_add_csv [simp]:
  "update_frame name (snd (add_item ttl ''CSV'' tabs dat w)) = update_frame name w"
  by (simp add: update_frame_def first_table_def add_item_def Let_def find_snoc_other)

lemma frame_content_search [simp]:
  "update_frame name (snd (content_search q ttl own typ n w)) = update_frame name w"
  by (simp add: content_search_def Let_def case_prod_beta)

lemma frame_my_items [simp]:
  "update_frame name (snd (my_items n w)) = update_frame name w"
  by (simp add: my_items_def Let_def case_prod_beta)

lemma frame_find_existing_table [simp]:
  "update_frame name (snd (find_existing_table n w)) = update_frame name w"
  by (simp add: find_existing_table_def Let_def case_prod_beta
      split: attempt.splits option.splits)

lemma frame_find_source_csv_item [simp]:
  "update_frame name (snd (find_source_csv_item n w)) = update_frame name w"
  by (simp add: find_source_csv_item_def Let_def case_prod_beta
      split: attempt.splits option.splits)

lemma frame_update_source_csv_item [simp]:
  "update_frame name (snd (update_source_csv_item c df folder w)) = update_frame name w"
  by (simp add: update_source_csv_item_def Let_def case_prod_beta)

lemma frame_folder_add [simp]:
  "update_frame name (snd (folder_add fn t df w)) = update_frame name w"
  by (simp add: folder_add_def Let_def case_prod_beta)

lemma frame_csv_method_1 [simp]:
  "update_frame name (snd (csv_method_1 fn t df w)) = update_frame name w"
  by (simp add: csv_method_1_def Let_def case_prod_beta)

lemma frame_csv_method_2 [simp]:
  "update_frame name (snd (csv_method_2 p t df w)) = update_frame name w"
  by (simp add: csv_method_2_def Let_def case_prod_beta)

lemma frame_create_source_csv_item [simp]:
  "update_frame name (snd (create_source_csv_item n df folder w)) = update_frame name w"
  by (simp add: create_source_csv_item_def Let_def case_prod_beta split: pyobj.splits)

lemma frame_stage_source_csv [simp]:
  "update_frame name (snd (stage_source_csv item df folder w)) = update_frame name w"
  by (simp add: stage_source_csv_def Let_def case_prod_beta split: option.splits)

lemma frame_layer_call [simp]:
  "\<not> is_identity_call e \<Longrightarrow> update_frame name (snd (layer_call e ref w)) = update_frame name w"
  by (simp add: layer_call_def Let_def case_prod_beta)

lemma frame_delete_features [simp]:
  "update_frame name (snd (delete_features ref w)) = update_frame name w"
  by (simp add: delete_features_def Let_def case_prod_beta)

lemma frame_edit_features [simp]:
  "update_frame name (snd (edit_features ref adds w)) = update_frame name w"
  by (simp add: edit_features_def Let_def case_prod_beta)

lemma frame_retry_rows [simp]:
  "update_frame name (snd (retry_rows ref batch t w)) = update_frame name w"
  by (induction batch arbitrary: t w) (simp_all add: Let_def case_prod_beta)

lemma frame_batch_pause [simp]:
  "update_frame name (batch_pause i bs n w) = update_frame name w"
  by (simp add: batch_pause_def)

lemma frame_batch_step [simp]:
  "update_frame name (snd (snd (batch_step ref bs feats st i))) = update_frame name (snd (snd st))"
  by (cases st)
     (simp add: batch_step_def Let_def case_prod_beta split: attempt.splits option.splits)

lemma frame_batch_loop [simp]:
  "update_frame name (snd (snd (foldl (batch_step ref bs feats) st idxs)))
     = update_frame name (snd (snd st))"
  by (induction idxs arbitrary: st) simp_all

lemma frame_add_features_in_batches [simp]:
  "update_frame name (snd (add_features_in_batches ref df bs w)) = update_frame name w"
  by (simp add: add_features_in_batches_def Let_def case_prod_beta split: option.splits)

lemma frame_update_prepare [simp]:
  "update_frame name (snd (update_prepare item df folder w)) = update_frame name w"
  by (simp add: update_prepare_def Let_def case_prod_beta split: option.splits)

lemma frame_append_or_fallback [simp]:
  "update_frame name (snd (append_or_fallback ref c df w)) = update_frame name w"
  by (simp add: append_or_fallback_def Let_def case_prod_beta)

lemma frame_update_existing_table [simp]:
  "update_frame name (snd (update_existing_table item df folder w)) = update_frame name w"
  by (simp add: update_existing_table_def Let_def case_prod_beta split: option.splits)












text \<open>
  With the operator's consent the table is deleted and a new one is published: the item
  returned has a new identity.
\<close>

lemma recreate_after_yes_example:
  "(case fst (publish_or_update_table ''Group_Snapshot'' demo_frame None []
          (demo_world (\<lambda>n. if n \<in> set [6, 7, 8, 9] then Raise else Ok) ['' Yes ''])) of
      Returns (Some it) \<Rightarrow> i_id it | _ \<Rightarrow> 0)
     = 102
   \<and> filter is_identity_call
        (trace (snd (publish_or_update_table ''Group_Snapshot'' demo_frame None []
          (demo_world (\<lambda>n. if n \<in> set [6, 7, 8, 9] then Raise else Ok) ['' Yes '']))))
     = [DeleteItem 7, Publish 101]"
  by code_simp

end
